theory Spec2Isabelle
  imports Main "HOL-Library.Sublist"
begin

section \<open>C strings and the helpers of the uWSGI core\<close>

text \<open>
  A buffer with an explicit length (\<^verbatim>\<open>char *item, uint16_t item_len\<close>) is a
  \<^typ>\<open>string\<close> holding exactly the bytes counted by the length. A function of libc that
  reads a NUL-terminated string sees the bytes before the first NUL only: \<open>c_str\<close>.
\<close>

definition NUL :: char where
  "NUL = CHR 0x00"

definition c_str :: "string \<Rightarrow> string" where
  "c_str s = takeWhile (\<lambda>c. c \<noteq> NUL) s"

text \<open>
  \<^verbatim>\<open>PATH_MAX\<close> comes from \<^verbatim>\<open><limits.h>\<close>; the plugin is built for Linux
  (its extended attribute code is under \<^verbatim>\<open>#ifdef __linux__\<close>), where it is 4096.
\<close>

definition PATH_MAX :: nat where
  "PATH_MAX = 4096"

text \<open>
  Modelled from the spec: \<^verbatim>\<open>uwsgi_get_last_charn\<close> is a helper of the uWSGI core that is
  not part of the plugin's file. The spec says of the parent resolver that it "locates the
  last \<^verbatim>\<open>/\<close> in \<^verbatim>\<open>request_path\<close>": the result is the index of the last occurrence of the
  character, \<open>None\<close> (the C \<^verbatim>\<open>NULL\<close>) when there is none.
\<close>

fun uwsgi_get_last_charn :: "string \<Rightarrow> char \<Rightarrow> nat option" where
  "uwsgi_get_last_charn [] c = None"
| "uwsgi_get_last_charn (x # xs) c =
     (case uwsgi_get_last_charn xs c of
        Some k \<Rightarrow> Some (Suc k)
      | None \<Rightarrow> (if x = c then Some 0 else None))"

section \<open>A file tree and \<^verbatim>\<open>realpath(3)\<close>\<close>

text \<open>
  The plugin leaves the canonicalisation of a path to \<^verbatim>\<open>realpath\<close>. To state what the
  resolvers return, the file system is a tree of directories (with the access the server
  has to each), regular files (with their bytes) and symbolic links (with their target).
\<close>

datatype dmode = Mode_rwx | Mode_rx | Mode_none

datatype node = File string | Dir dmode "(string \<times> node) list" | Symlink string

fun entry :: "node \<Rightarrow> string \<Rightarrow> node option" where
  "entry (Dir m es) n = (if m = Mode_none then None else map_of es n)"
| "entry (File b) n = None"
| "entry (Symlink t) n = None"

text \<open>\<open>walk\<close> descends by names, following no link: \<^verbatim>\<open>lstat\<close> of a canonical path.\<close>

fun walk :: "node \<Rightarrow> string list \<Rightarrow> node option" where
  "walk nd [] = Some nd"
| "walk nd (n # ns) = (case entry nd n of None \<Rightarrow> None | Some c \<Rightarrow> walk c ns)"

fun split_path :: "string \<Rightarrow> string list" where
  "split_path [] = [[]]"
| "split_path (x # xs) =
     (if x = CHR ''/'' then [] # split_path xs
      else (case split_path xs of
              w # ws \<Rightarrow> (x # w) # ws
            | [] \<Rightarrow> [[x]]))"

definition render :: "string list \<Rightarrow> string" where
  "render cs = (if cs = [] then ''/'' else concat (map (\<lambda>c. CHR ''/'' # c) cs))"

definition MAXSYMLINKS :: nat where
  "MAXSYMLINKS = 40"

definition is_dir_node :: "node \<Rightarrow> bool" where
  "is_dir_node nd = (case nd of Dir m es \<Rightarrow> True | File b \<Rightarrow> False | Symlink t \<Rightarrow> False)"

definition dir_at :: "node \<Rightarrow> string list \<Rightarrow> bool" where
  "dir_at root cur = (case walk root cur of None \<Rightarrow> False | Some nd \<Rightarrow> is_dir_node nd)"

text \<open>
  The resolution walks the components left to right from the canonical path \<open>cur\<close>:
  an empty component (a slash after \<open>cur\<close>) and \<^verbatim>\<open>.\<close> are skipped and \<^verbatim>\<open>..\<close> drops the
  last name (the root is its own parent), each of them only when \<open>cur\<close> is a directory
  (\<^verbatim>\<open>ENOTDIR\<close> otherwise); a name must exist in \<open>cur\<close>, and a symbolic link is replaced
  by its target, at most \<open>links\<close> times (\<^verbatim>\<open>ELOOP\<close> after that).
\<close>

function resolve :: "node \<Rightarrow> nat \<Rightarrow> string list \<Rightarrow> string list \<Rightarrow> string list option" where
  "resolve root links cur [] = Some cur"
| "resolve root links cur (c # cs) =
     (if c = [] \<or> c = ''.'' then (if dir_at root cur then resolve root links cur cs else None)
      else if c = ''..'' then
        (if dir_at root cur then resolve root links (butlast cur) cs else None)
      else (case walk root (cur @ [c]) of
              None \<Rightarrow> None
            | Some (Symlink t) \<Rightarrow>
                (if links = 0 \<or> t = [] then None
                 else resolve root (links - 1) (if hd t = CHR ''/'' then [] else cur)
                        (split_path t @ cs))
            | Some (File b) \<Rightarrow> resolve root links (cur @ [c]) cs
            | Some (Dir m es) \<Rightarrow> resolve root links (cur @ [c]) cs))"
  by pat_completeness auto
termination
  by (relation "inv_image (less_than <*lex*> less_than)
                  (\<lambda>(root, links, cur, cs). (links, length cs))") auto

text \<open>
  \<open>resolve_dir\<close> gives the canonical names of a path, \<open>realpath\<close> the canonical path as
  \<^verbatim>\<open>realpath(3)\<close> returns it: \<open>None\<close> (the C \<^verbatim>\<open>NULL\<close>) for the empty path, a missing
  component, a link loop, or a result that does not fit \<^verbatim>\<open>PATH_MAX\<close>. The working
  directory of the server is taken to be the root, so a relative path starts there too.
\<close>

definition resolve_dir :: "node \<Rightarrow> string \<Rightarrow> string list option" where
  "resolve_dir root p = (if p = [] then None else resolve root MAXSYMLINKS [] (split_path p))"

definition realpath :: "node \<Rightarrow> string \<Rightarrow> string option" where
  "realpath root p =
     (case resolve_dir root p of
        None \<Rightarrow> None
      | Some cs \<Rightarrow> (if length (render cs) < PATH_MAX then Some (render cs) else None))"

section \<open>The path resolvers\<close>

text \<open>
  \<^verbatim>\<open>uwsgi_webdav_expand_path\<close>: \<open>rp\<close> is \<^verbatim>\<open>realpath\<close> on the current file system,
  \<open>docroot\<close> is \<^verbatim>\<open>uwsgi_apps[wsgi_req->app_id].interpreter\<close>, \<open>item\<close> the \<^verbatim>\<open>item_len\<close>
  bytes at \<^verbatim>\<open>item\<close>. The C function returns the length of the result, 0 for a failure;
  the model returns the file name, \<open>None\<close> where the C function returns 0.
\<close>

definition uwsgi_webdav_expand_path :: "(string \<Rightarrow> string option) \<Rightarrow> string \<Rightarrow> string \<Rightarrow> string option" where
  "uwsgi_webdav_expand_path rp docroot item =
     (case rp (c_str (docroot @ ''/'' @ item)) of
        None \<Rightarrow> None
      | Some filename \<Rightarrow> (if length filename = 0 then None else Some filename))"

text \<open>\<^verbatim>\<open>uwsgi_webdav_expand_fake_path\<close>: the prefix before the last slash is resolved, the rest
  (the slash included) is appended as it is.\<close>

definition uwsgi_webdav_expand_fake_path :: "(string \<Rightarrow> string option) \<Rightarrow> string \<Rightarrow> string \<Rightarrow> string option" where
  "uwsgi_webdav_expand_fake_path rp docroot item =
     (case uwsgi_get_last_charn item (CHR ''/'') of
        None \<Rightarrow> None
      | Some last_slash \<Rightarrow>
          (case uwsgi_webdav_expand_path rp docroot (take last_slash item) of
             None \<Rightarrow> None
           | Some filename \<Rightarrow>
               (if length filename + (length item - last_slash) \<ge> PATH_MAX then None
                else Some (filename @ drop last_slash item))))"

text \<open>
  The notions the properties of the resolvers are stated with. A plain name is a name a
  directory entry can have, other than the two dot entries. \<open>no_links\<close> holds of a tree
  with no symbolic link in it. \<open>under_docroot\<close> is the containment of the spec: the path
  is the docroot, or has the docroot followed by a slash as a prefix.
\<close>

definition plain_name :: "string \<Rightarrow> bool" where
  "plain_name n = (n \<noteq> [] \<and> n \<noteq> ''.'' \<and> n \<noteq> ''..'' \<and> CHR ''/'' \<notin> set n \<and> NUL \<notin> set n)"

fun no_links :: "node \<Rightarrow> bool" where
  "no_links (File b) = True"
| "no_links (Symlink t) = False"
| "no_links (Dir m es) = (\<forall>e \<in> set es. no_links (snd e))"

definition is_link :: "node option \<Rightarrow> bool" where
  "is_link x = (case x of Some (Symlink t) \<Rightarrow> True | Some (File b) \<Rightarrow> False
                | Some (Dir m es) \<Rightarrow> False | None \<Rightarrow> False)"

definition under_docroot :: "string \<Rightarrow> string \<Rightarrow> bool" where
  "under_docroot root_dir f = (f = root_dir \<or> prefix (root_dir @ ''/'') f)"

section \<open>Requests, responses and the operating system\<close>

text \<open>
  The fields of \<^verbatim>\<open>struct wsgi_request\<close> the handlers read or write. \<open>docroot\<close> stands for
  \<^verbatim>\<open>uwsgi_apps[wsgi_req->app_id].interpreter\<close>, \<open>vars\<close> for the request variables that
  \<^verbatim>\<open>uwsgi_get_var\<close> looks up, \<open>body_stream\<close> for what the successive calls of
  \<^verbatim>\<open>uwsgi_request_body_read\<close> return. The response is kept as the status lines prepared so
  far (in order), the headers added and the body written.
\<close>

datatype read_event = Chunk string | Read_error

record wsgi_request =
  docroot :: string
  path_info :: string
  scheme :: string
  host :: string
  vars :: "(string \<times> string) list"
  post_cl :: nat
  body_stream :: "read_event list"
  status_lines :: "string list"
  resp_headers :: "(string \<times> string) list"
  resp_body :: string

text \<open>
  Modelled from the spec: \<^verbatim>\<open>uwsgi_get_var\<close> is the HTTP collaborator's lookup of a request
  variable ("request variables"); an absent variable gives \<^verbatim>\<open>NULL\<close> and leaves the length
  at the 0 the caller initialised it to.
\<close>

definition uwsgi_get_var :: "wsgi_request \<Rightarrow> string \<Rightarrow> string option" where
  "uwsgi_get_var req key = map_of (vars req) key"

text \<open>
  Modelled from the spec: \<^verbatim>\<open>uwsgi_response_prepare_headers\<close>, \<^verbatim>\<open>uwsgi_403\<close> and
  \<^verbatim>\<open>uwsgi_404\<close> belong to the HTTP collaborator ("prepare status", "write body"), not to
  the plugin's file. Preparing a status starts the response headers afresh with that status
  line and reports success (0) on a request whose headers are not sent yet, the state in
  which the dispatcher calls a handler; the status of the response is therefore the last
  one prepared. The two error helpers prepare their status and write its reason as body.
\<close>

definition uwsgi_response_prepare_headers :: "wsgi_request \<Rightarrow> string \<Rightarrow> int \<times> wsgi_request" where
  "uwsgi_response_prepare_headers req status =
     (0, req\<lparr>status_lines := status_lines req @ [status], resp_headers := []\<rparr>)"

definition response_status :: "wsgi_request \<Rightarrow> string option" where
  "response_status req = (if status_lines req = [] then None else Some (last (status_lines req)))"

definition uwsgi_403 :: "wsgi_request \<Rightarrow> wsgi_request" where
  "uwsgi_403 req =
     (case uwsgi_response_prepare_headers req ''403 Forbidden'' of
        (rc, req') \<Rightarrow> (if rc \<noteq> 0 then req' else req'\<lparr>resp_body := resp_body req' @ ''Forbidden''\<rparr>))"

definition uwsgi_404 :: "wsgi_request \<Rightarrow> wsgi_request" where
  "uwsgi_404 req =
     (case uwsgi_response_prepare_headers req ''404 Not Found'' of
        (rc, req') \<Rightarrow> (if rc \<noteq> 0 then req' else req'\<lparr>resp_body := resp_body req' @ ''Not Found''\<rparr>))"

text \<open>
  The system calls the handlers make, as functions of a state of the world \<open>'w\<close> (the file
  system and whatever else the server shares). A call that changes the world returns the
  new one, or the error number and no change. The theorems about the handlers hold for
  every such operating system; the tree above gives one to run them on.
\<close>

datatype errno =
  ENOENT | EACCES | EEXIST | ENOTDIR | EISDIR | ENOTEMPTY | EINVAL | ENOSPC | ERANGE | ENODATA

datatype d_type = DT_DIR | DT_REG | DT_LNK

datatype dir_event = Entry string d_type | Read_fail

record 'w os =
  os_realpath :: "'w \<Rightarrow> string \<Rightarrow> string option"
  os_stat_isdir :: "'w \<Rightarrow> string \<Rightarrow> bool option"
  os_rename :: "'w \<Rightarrow> string \<Rightarrow> string \<Rightarrow> errno + 'w"
  os_mkdir :: "'w \<Rightarrow> string \<Rightarrow> errno + 'w"
  os_unlink :: "'w \<Rightarrow> string \<Rightarrow> errno + 'w"
  os_rmdir :: "'w \<Rightarrow> string \<Rightarrow> errno + 'w"
  os_opendir :: "'w \<Rightarrow> string \<Rightarrow> dir_event list option"
  os_open :: "'w \<Rightarrow> string \<Rightarrow> errno + (nat \<times> 'w)"
  os_write :: "'w \<Rightarrow> nat \<Rightarrow> string \<Rightarrow> int \<times> 'w"
  os_close :: "'w \<Rightarrow> nat \<Rightarrow> 'w"
  os_listxattr :: "'w \<Rightarrow> string \<Rightarrow> string option"
  os_getxattr :: "'w \<Rightarrow> string \<Rightarrow> string \<Rightarrow> string option"
  os_setxattr :: "'w \<Rightarrow> string \<Rightarrow> string \<Rightarrow> string \<Rightarrow> errno + 'w"
  os_removexattr :: "'w \<Rightarrow> string \<Rightarrow> string \<Rightarrow> errno + 'w"

text \<open>
  Where the C code reads outside the object it was given, or hands a null directory stream
  to \<^verbatim>\<open>readdir_r\<close>, its behaviour is undefined: the model stops there with a fault and
  no response.
\<close>

datatype fault = Out_of_bounds_read | Null_dir_stream

section \<open>MOVE, MKCOL, LOCK and PUT\<close>

text \<open>
  \<^verbatim>\<open>uwsgi_wevdav_manage_move\<close>. \<open>move_skip\<close> is the \<^verbatim>\<open>uint16_t skip\<close> of the handler, the
  length of scheme, \<^verbatim>\<open>://\<close> and host; \<open>move_destination\<close> the bytes
  \<^verbatim>\<open>destination + skip\<close> of length \<^verbatim>\<open>destination_len - skip\<close>, which lie outside the header
  when \<open>skip\<close> exceeds its length. \<open>move_can_overwrite\<close> reads the first byte of the
  \<^verbatim>\<open>Overwrite\<close> header, which an empty header does not have.
\<close>

definition move_skip :: "wsgi_request \<Rightarrow> nat" where
  "move_skip req =
     ((if length (scheme req) = 0 then 4 else length (scheme req)) + 3 + length (host req))
       mod 65536"

definition move_destination :: "wsgi_request \<Rightarrow> string \<Rightarrow> fault + string" where
  "move_destination req destination =
     (if move_skip req > length destination then Inl Out_of_bounds_read
      else Inr (drop (move_skip req) destination))"

definition move_can_overwrite :: "wsgi_request \<Rightarrow> fault + bool" where
  "move_can_overwrite req =
     (case uwsgi_get_var req ''HTTP_OVERWRITE'' of
        None \<Rightarrow> Inr True
      | Some [] \<Rightarrow> Inl Out_of_bounds_read
      | Some (c # cs) \<Rightarrow> Inr (c \<noteq> CHR ''F''))"

definition uwsgi_wevdav_manage_move :: "'w os \<Rightarrow> 'w \<Rightarrow> wsgi_request \<Rightarrow> fault + ('w \<times> wsgi_request)" where
  "uwsgi_wevdav_manage_move os w req =
     (case uwsgi_webdav_expand_path (os_realpath os w) (docroot req) (path_info req) of
        None \<Rightarrow> Inr (w, uwsgi_404 req)
      | Some filename \<Rightarrow>
          (case uwsgi_get_var req ''HTTP_DESTINATION'' of
             None \<Rightarrow> Inr (w, uwsgi_403 req)
           | Some destination \<Rightarrow>
               (if length destination = 0 then Inr (w, uwsgi_403 req)
                else
                  (case move_can_overwrite req of
                     Inl f \<Rightarrow> Inl f
                   | Inr can_overwrite \<Rightarrow>
                       (case move_destination req destination of
                          Inl f \<Rightarrow> Inl f
                        | Inr dest \<Rightarrow>
                            (case uwsgi_webdav_expand_path (os_realpath os w) (docroot req) dest of
                               Some d_filename \<Rightarrow>
                                 (if \<not> can_overwrite
                                  then Inr (w, snd (uwsgi_response_prepare_headers req
                                                      ''412 Precondition Failed''))
                                  else
                                    (case os_rename os w filename d_filename of
                                       Inl e \<Rightarrow> Inr (w, uwsgi_403 req)
                                     | Inr w' \<Rightarrow>
                                         Inr (w', snd (uwsgi_response_prepare_headers req
                                                         ''204 No Content''))))
                             | None \<Rightarrow>
                                 (case uwsgi_webdav_expand_fake_path (os_realpath os w) (docroot req) dest of
                                    None \<Rightarrow>
                                      Inr (w, snd (uwsgi_response_prepare_headers req ''409 Conflict''))
                                  | Some d_filename \<Rightarrow>
                                      (case os_rename os w filename d_filename of
                                         Inl e \<Rightarrow> Inr (w, uwsgi_403 req)
                                       | Inr w' \<Rightarrow>
                                           Inr (w', snd (uwsgi_response_prepare_headers req
                                                           ''201 Created''))))))))))"

text \<open>
  \<^verbatim>\<open>uwsgi_wevdav_manage_mkcol\<close>. After a failed \<^verbatim>\<open>mkdir\<close> the C code prepares
  \<^verbatim>\<open>409 Conflict\<close> and goes on: there is no \<^verbatim>\<open>return\<close> and no \<^verbatim>\<open>else\<close> before the
  \<^verbatim>\<open>201 Created\<close> that follows.
\<close>

definition uwsgi_wevdav_manage_mkcol :: "'w os \<Rightarrow> 'w \<Rightarrow> wsgi_request \<Rightarrow> 'w \<times> wsgi_request" where
  "uwsgi_wevdav_manage_mkcol os w req =
     (if post_cl req > 0
      then (w, snd (uwsgi_response_prepare_headers req ''415 Unsupported Media Type''))
      else
        (case uwsgi_webdav_expand_path (os_realpath os w) (docroot req) (path_info req) of
           Some filename \<Rightarrow> (w, snd (uwsgi_response_prepare_headers req ''405 Method Not Allowed''))
         | None \<Rightarrow>
             (let req1 = (if length (path_info req) > 1 \<and> last (path_info req) = CHR ''/''
                          then req\<lparr>path_info := butlast (path_info req)\<rparr> else req)
              in case uwsgi_webdav_expand_fake_path (os_realpath os w) (docroot req1) (path_info req1) of
                   None \<Rightarrow> (w, snd (uwsgi_response_prepare_headers req1 ''409 Conflict''))
                 | Some filename \<Rightarrow>
                     (case os_mkdir os w filename of
                        Inl e \<Rightarrow>
                          (w, snd (uwsgi_response_prepare_headers
                                     (snd (uwsgi_response_prepare_headers req1 ''409 Conflict''))
                                     ''201 Created''))
                      | Inr w' \<Rightarrow> (w', snd (uwsgi_response_prepare_headers req1 ''201 Created''))))))"

text \<open>\<^verbatim>\<open>uwsgi_wevdav_manage_lock\<close>: the whole handler is one prepared status.\<close>

definition uwsgi_wevdav_manage_lock :: "'w os \<Rightarrow> 'w \<Rightarrow> wsgi_request \<Rightarrow> 'w \<times> wsgi_request" where
  "uwsgi_wevdav_manage_lock os w req = (w, snd (uwsgi_response_prepare_headers req ''201 Created''))"

text \<open>
  \<^verbatim>\<open>uwsgi_wevdav_manage_put\<close>. \<open>put_filename\<close> is the file the handler opens: the target,
  or the target below its resolved parent when the target does not exist. The status is
  prepared once the file is open, before the body is copied. The body loop runs while
  \<^verbatim>\<open>remains > 0\<close>, and \<^verbatim>\<open>remains\<close> is never changed: it ends when the body read
  returns \<^verbatim>\<open>NULL\<close> or the empty chunk \<^verbatim>\<open>uwsgi.empty\<close> (the end of the body), or when
  a \<^verbatim>\<open>write\<close> is short.
\<close>

fun put_body_loop :: "'w os \<Rightarrow> 'w \<Rightarrow> nat \<Rightarrow> read_event list \<Rightarrow> 'w \<times> read_event list" where
  "put_body_loop os w fd [] = (w, [])"
| "put_body_loop os w fd (Read_error # evs) = (w, evs)"
| "put_body_loop os w fd (Chunk body # evs) =
     (if body = [] then (w, evs)
      else (case os_write os w fd body of
              (n, w') \<Rightarrow> (if n \<noteq> int (length body) then (w', evs)
                           else put_body_loop os w' fd evs)))"

definition put_filename :: "'w os \<Rightarrow> 'w \<Rightarrow> wsgi_request \<Rightarrow> string option" where
  "put_filename os w req =
     (case uwsgi_webdav_expand_path (os_realpath os w) (docroot req) (path_info req) of
        Some filename \<Rightarrow> Some filename
      | None \<Rightarrow> uwsgi_webdav_expand_fake_path (os_realpath os w) (docroot req) (path_info req))"

definition uwsgi_wevdav_manage_put :: "'w os \<Rightarrow> 'w \<Rightarrow> wsgi_request \<Rightarrow> 'w \<times> wsgi_request" where
  "uwsgi_wevdav_manage_put os w req =
     (case put_filename os w req of
        None \<Rightarrow> (w, snd (uwsgi_response_prepare_headers req ''409 Conflict''))
      | Some filename \<Rightarrow>
          (case os_open os w filename of
             Inl e \<Rightarrow> (w, uwsgi_403 req)
           | Inr (fd, w1) \<Rightarrow>
               (case uwsgi_response_prepare_headers req ''201 Created'' of
                  (rc, req1) \<Rightarrow>
                    (if rc \<noteq> 0 then (os_close os w1 fd, req1)
                     else if post_cl req1 > 0
                     then (case put_body_loop os w1 fd (body_stream req1) of
                             (w2, rest) \<Rightarrow> (os_close os w2 fd, req1\<lparr>body_stream := rest\<rparr>))
                     else (os_close os w1 fd, req1)))))"

section \<open>DELETE\<close>

text \<open>
  \<^verbatim>\<open>uwsgi_webdav_massive_delete\<close>. \<^verbatim>\<open>opendir\<close> gives the entries that the calls of
  \<^verbatim>\<open>readdir_r\<close> will return, or \<^verbatim>\<open>NULL\<close>; the C code does not test for \<^verbatim>\<open>NULL\<close>
  and reads the stream. The recursion into a subdirectory is bounded by the fuel \<open>n\<close>
  (\<open>None\<close> when it runs out), the loop over the entries is structural.
\<close>

fun uwsgi_webdav_massive_delete :: "nat \<Rightarrow> 'w os \<Rightarrow> 'w \<Rightarrow> string \<Rightarrow> (fault + (int \<times> 'w)) option"
  and massive_delete_loop :: "nat \<Rightarrow> 'w os \<Rightarrow> 'w \<Rightarrow> string \<Rightarrow> dir_event list \<Rightarrow> (fault + (int \<times> 'w)) option"
where
  "uwsgi_webdav_massive_delete 0 os w dir = None"
| "uwsgi_webdav_massive_delete (Suc n) os w dir =
     (case os_opendir os w dir of
        None \<Rightarrow> Some (Inl Null_dir_stream)
      | Some evs \<Rightarrow> massive_delete_loop n os w dir evs)"
| "massive_delete_loop n os w dir [] =
     (case os_rmdir os w dir of
        Inl e \<Rightarrow> Some (Inr (- 1, w))
      | Inr w' \<Rightarrow> Some (Inr (0, w')))"
| "massive_delete_loop n os w dir (Read_fail # evs) = Some (Inr (- 1, w))"
| "massive_delete_loop n os w dir (Entry name t # evs) =
     (if name = ''.'' \<or> name = ''..'' then massive_delete_loop n os w dir evs
      else if t = DT_DIR then
        (case uwsgi_webdav_massive_delete n os w (dir @ ''/'' @ name) of
           None \<Rightarrow> None
         | Some (Inl f) \<Rightarrow> Some (Inl f)
         | Some (Inr (rc, w')) \<Rightarrow>
             (if rc \<noteq> 0 then Some (Inr (- 1, w')) else massive_delete_loop n os w' dir evs))
      else
        (case os_unlink os w (dir @ ''/'' @ name) of
           Inl e \<Rightarrow> Some (Inr (- 1, w))
         | Inr w' \<Rightarrow> massive_delete_loop n os w' dir evs))"

text \<open>\<^verbatim>\<open>uwsgi_is_dir\<close> is a helper of the uWSGI core: whether \<^verbatim>\<open>stat\<close> succeeds and
  reports a directory.\<close>

definition uwsgi_is_dir :: "'w os \<Rightarrow> 'w \<Rightarrow> string \<Rightarrow> bool" where
  "uwsgi_is_dir os w filename = (os_stat_isdir os w filename = Some True)"

definition uwsgi_wevdav_manage_delete :: "nat \<Rightarrow> 'w os \<Rightarrow> 'w \<Rightarrow> wsgi_request \<Rightarrow> (fault + ('w \<times> wsgi_request)) option" where
  "uwsgi_wevdav_manage_delete n os w req =
     (case uwsgi_webdav_expand_path (os_realpath os w) (docroot req) (path_info req) of
        None \<Rightarrow> Some (Inr (w, uwsgi_404 req))
      | Some filename \<Rightarrow>
          (if uwsgi_is_dir os w filename then
             (case os_rmdir os w filename of
                Inr w' \<Rightarrow> Some (Inr (w', snd (uwsgi_response_prepare_headers req ''200 OK'')))
              | Inl e \<Rightarrow>
                  (if e = ENOTEMPTY then
                     (case uwsgi_webdav_massive_delete n os w filename of
                        None \<Rightarrow> None
                      | Some (Inl f) \<Rightarrow> Some (Inl f)
                      | Some (Inr (rc, w')) \<Rightarrow>
                          (if rc \<noteq> 0 then Some (Inr (w', uwsgi_403 req))
                           else Some (Inr (w', snd (uwsgi_response_prepare_headers req ''200 OK'')))))
                   else Some (Inr (w, uwsgi_403 req))))
           else
             (case os_unlink os w filename of
                Inl e \<Rightarrow> Some (Inr (w, uwsgi_403 req))
              | Inr w' \<Rightarrow> Some (Inr (w', snd (uwsgi_response_prepare_headers req ''200 OK''))))))"

section \<open>Dead properties and PROPFIND\<close>

text \<open>
  \<^verbatim>\<open>uwsgi_webdav_prop_set\<close> and \<^verbatim>\<open>uwsgi_webdav_prop_del\<close>: \<open>ns\<close> is \<open>None\<close> for the C
  \<^verbatim>\<open>NULL\<close>. The value stored has \<^verbatim>\<open>strlen(body)\<close> bytes. The result is the \<^verbatim>\<open>int\<close>
  of the system call, 0 for success.
\<close>

definition xattr_name :: "string \<Rightarrow> string option \<Rightarrow> string" where
  "xattr_name attr ns =
     (case ns of
        Some n \<Rightarrow> ''user.uwsgi.webdav.'' @ c_str n @ ''|'' @ c_str attr
      | None \<Rightarrow> ''user.uwsgi.webdav.'' @ c_str attr)"

definition uwsgi_webdav_prop_set :: "'w os \<Rightarrow> 'w \<Rightarrow> string \<Rightarrow> string \<Rightarrow> string option \<Rightarrow> string \<Rightarrow> int \<times> 'w" where
  "uwsgi_webdav_prop_set os w filename attr ns body =
     (case os_setxattr os w filename (xattr_name attr ns) (c_str body) of
        Inl e \<Rightarrow> (- 1, w)
      | Inr w' \<Rightarrow> (0, w'))"

definition uwsgi_webdav_prop_del :: "'w os \<Rightarrow> 'w \<Rightarrow> string \<Rightarrow> string \<Rightarrow> string option \<Rightarrow> int \<times> 'w" where
  "uwsgi_webdav_prop_del os w filename attr ns =
     (case os_removexattr os w filename (xattr_name attr ns) of
        Inl e \<Rightarrow> (- 1, w)
      | Inr w' \<Rightarrow> (0, w'))"

text \<open>
  Modelled from the spec: \<^verbatim>\<open>uwsgi_starts_with\<close> is a helper of the uWSGI core that is not
  part of the plugin's file; the spec's "key = \<^verbatim>\<open>user.uwsgi.webdav.\<close> + ..." is tested with
  it. It returns 0 exactly when the first string starts with the second.
\<close>

definition uwsgi_starts_with :: "string \<Rightarrow> string \<Rightarrow> int" where
  "uwsgi_starts_with src dst =
     (if length src < length dst then - 1 else if take (length dst) src = dst then 0 else 1)"

text \<open>\<^verbatim>\<open>strchr\<close>: the index of the first occurrence.\<close>

fun strchr :: "string \<Rightarrow> char \<Rightarrow> nat option" where
  "strchr [] c = None"
| "strchr (x # xs) c = (if x = c then Some 0 else map_option Suc (strchr xs c))"

text \<open>
  A dead property as \<^verbatim>\<open>uwsgi_webdav_add_props\<close> adds it to the \<^verbatim>\<open>prop\<close> element: its
  namespace (if the key has a separator), its name, and its text (\<open>None\<close> for an empty
  element).
\<close>

type_synonym dead_prop = "string option \<times> string \<times> string option"

text \<open>
  The body of the loop for one key of the name list. \<open>rlen\<close> is the length of the whole
  name list, as in the C code, which tests \<^verbatim>\<open>rlen\<close> where the length \<^verbatim>\<open>rlen2\<close> of the value
  was just computed. \<^verbatim>\<open>getxattr\<close> returns the length of the value it copied.
\<close>

definition xattr_item :: "'w os \<Rightarrow> 'w \<Rightarrow> string \<Rightarrow> bool \<Rightarrow> int \<Rightarrow> string \<Rightarrow> dead_prop list" where
  "xattr_item os w filename with_values rlen key =
     (if uwsgi_starts_with key ''user.uwsgi.webdav.'' \<noteq> 0 then []
      else
        (let separator = strchr (drop 18 key) (CHR ''|'');
             xattr_key = (case separator of
                            None \<Rightarrow> drop 18 key
                          | Some k \<Rightarrow> drop (Suc k) (drop 18 key));
             xattr_item =
               (if with_values then
                  (if rlen > 0 then
                     (case os_getxattr os w filename key of
                        None \<Rightarrow> None
                      | Some xvalue \<Rightarrow>
                          (if int (length xvalue) > 0 then Some (xattr_key, Some (c_str xvalue))
                           else None))
                   else if rlen = 0 then Some (xattr_key, None)
                   else None)
                else Some (xattr_key, None))
         in (case xattr_item of
               None \<Rightarrow> []
             | Some (name, content) \<Rightarrow>
                 [(case separator of None \<Rightarrow> None | Some k \<Rightarrow> Some (take k (drop 18 key)),
                   name, content)])))"

text \<open>
  The loop over the bytes of the name list: \<open>key\<close> holds the bytes from the \<^verbatim>\<open>key\<close>
  pointer to the current one. A NUL with no key ends the loop, a NUL after a key ends the
  key, a key with no NUL after it is never used.
\<close>

fun xattr_scan :: "(string \<Rightarrow> 'a list) \<Rightarrow> string option \<Rightarrow> string \<Rightarrow> 'a list" where
  "xattr_scan f key [] = []"
| "xattr_scan f None (c # cs) = (if c = NUL then [] else xattr_scan f (Some [c]) cs)"
| "xattr_scan f (Some k) (c # cs) =
     (if c = NUL then f k @ xattr_scan f None cs else xattr_scan f (Some (k @ [c])) cs)"

definition add_props_xattrs :: "'w os \<Rightarrow> 'w \<Rightarrow> string \<Rightarrow> bool \<Rightarrow> dead_prop list" where
  "add_props_xattrs os w filename with_values =
     (case os_listxattr os w filename of
        None \<Rightarrow> []
      | Some xattrs \<Rightarrow>
          (if int (length xattrs) \<le> 0 then []
           else xattr_scan (xattr_item os w filename with_values (int (length xattrs))) None xattrs))"







section \<open>An operating system on the file tree\<close>

text \<open>
  One operating system to run the handlers on: the file tree with the space left on the
  device, the table of open files (descriptor, canonical names, offset), the extended
  attributes of each canonical path in the order of their creation, and the shared cache
  that the lock manager of the spec would keep its locks in (URI and token).
\<close>

record world =
  fs_root :: node
  free_space :: nat
  open_files :: "(nat \<times> string list \<times> nat) list"
  xattrs :: "(string \<times> (string \<times> string) list) list"
  lock_cache :: "(string \<times> string) list"

fun modify :: "node \<Rightarrow> string list \<Rightarrow> (node \<Rightarrow> node option) \<Rightarrow> node option" where
  "modify nd [] f = f nd"
| "modify nd (n # ns) f =
     (case nd of
        Dir m es \<Rightarrow>
          (case map_of es n of
             None \<Rightarrow> None
           | Some c \<Rightarrow>
               (case modify c ns f of
                  None \<Rightarrow> None
                | Some c' \<Rightarrow> Some (Dir m (map (\<lambda>(k, v). if k = n then (k, c') else (k, v)) es))))
      | File b \<Rightarrow> None
      | Symlink t \<Rightarrow> None)"

definition set_entries :: "node \<Rightarrow> string list \<Rightarrow> (string \<times> node) list \<Rightarrow> node option" where
  "set_entries root dir es' =
     modify root dir (\<lambda>nd. case nd of Dir m es \<Rightarrow> Some (Dir m es') | File b \<Rightarrow> None | Symlink t \<Rightarrow> None)"

definition remove_entry :: "string \<Rightarrow> (string \<times> node) list \<Rightarrow> (string \<times> node) list" where
  "remove_entry n es = filter (\<lambda>(k, v). k \<noteq> n) es"

definition put_entry :: "string \<Rightarrow> node \<Rightarrow> (string \<times> node) list \<Rightarrow> (string \<times> node) list" where
  "put_entry n c es = remove_entry n es @ [(n, c)]"

text \<open>
  A call that acts on a directory entry (\<^verbatim>\<open>mkdir\<close>, \<^verbatim>\<open>unlink\<close>, \<^verbatim>\<open>rmdir\<close>, \<^verbatim>\<open>rename\<close>)
  resolves the directory of the path and takes the last name as it is, following no link
  there. A path that ends in a slash names a directory: no file is unlinked, renamed or
  created under such a path.
\<close>

definition trailing_slash :: "string \<Rightarrow> bool" where
  "trailing_slash p = (c_str p \<noteq> [] \<and> last (c_str p) = CHR ''/'')"

definition names_of :: "string \<Rightarrow> string list" where
  "names_of p = filter (\<lambda>c. c \<noteq> []) (split_path (c_str p))"

definition parent_leaf :: "node \<Rightarrow> string \<Rightarrow> (string list \<times> string) option" where
  "parent_leaf root p =
     (let ns = names_of p
      in if ns = [] then None
         else if last ns = ''.'' \<or> last ns = ''..'' then None
         else (case resolve root MAXSYMLINKS [] (butlast ns) of
                 None \<Rightarrow> None
               | Some dir \<Rightarrow> Some (dir, last ns)))"

definition posix_stat_isdir :: "world \<Rightarrow> string \<Rightarrow> bool option" where
  "posix_stat_isdir w p =
     (case resolve_dir (fs_root w) (c_str p) of
        None \<Rightarrow> None
      | Some ns \<Rightarrow> map_option is_dir_node (walk (fs_root w) ns))"

definition node_d_type :: "node \<Rightarrow> d_type" where
  "node_d_type nd = (case nd of Dir m es \<Rightarrow> DT_DIR | File b \<Rightarrow> DT_REG | Symlink t \<Rightarrow> DT_LNK)"

definition posix_opendir :: "world \<Rightarrow> string \<Rightarrow> dir_event list option" where
  "posix_opendir w p =
     (case resolve_dir (fs_root w) (c_str p) of
        None \<Rightarrow> None
      | Some ns \<Rightarrow>
          (case walk (fs_root w) ns of
             Some (Dir m es) \<Rightarrow>
               (if m = Mode_none then None
                else Some (Entry ''.'' DT_DIR # Entry ''..'' DT_DIR #
                           map (\<lambda>(n, c). Entry n (node_d_type c)) es))
           | Some (File b) \<Rightarrow> None
           | Some (Symlink t) \<Rightarrow> None
           | None \<Rightarrow> None))"

definition drop_xattrs :: "string \<Rightarrow> world \<Rightarrow> world" where
  "drop_xattrs path w = w\<lparr>xattrs := filter (\<lambda>(k, v). k \<noteq> path) (xattrs w)\<rparr>"

definition posix_mkdir :: "world \<Rightarrow> string \<Rightarrow> errno + world" where
  "posix_mkdir w p =
     (case parent_leaf (fs_root w) p of
        None \<Rightarrow> Inl ENOENT
      | Some (dir, leaf) \<Rightarrow>
          (case walk (fs_root w) dir of
             Some (Dir m es) \<Rightarrow>
               (if map_of es leaf \<noteq> None then Inl EEXIST
                else if m \<noteq> Mode_rwx then Inl EACCES
                else (case set_entries (fs_root w) dir (es @ [(leaf, Dir Mode_rwx [])]) of
                        None \<Rightarrow> Inl ENOENT
                      | Some r \<Rightarrow> Inr (w\<lparr>fs_root := r\<rparr>)))
           | Some (File b) \<Rightarrow> Inl ENOTDIR
           | Some (Symlink t) \<Rightarrow> Inl ENOTDIR
           | None \<Rightarrow> Inl ENOENT))"

definition posix_unlink :: "world \<Rightarrow> string \<Rightarrow> errno + world" where
  "posix_unlink w p =
     (case parent_leaf (fs_root w) p of
        None \<Rightarrow> Inl ENOENT
      | Some (dir, leaf) \<Rightarrow>
          (case walk (fs_root w) dir of
             Some (Dir m es) \<Rightarrow>
               (if m \<noteq> Mode_rwx then Inl EACCES
                else if trailing_slash p then Inl ENOTDIR
                else (case map_of es leaf of
                        None \<Rightarrow> Inl ENOENT
                      | Some (Dir m' es') \<Rightarrow> Inl EISDIR
                      | Some (File b) \<Rightarrow>
                          (case set_entries (fs_root w) dir (remove_entry leaf es) of
                             None \<Rightarrow> Inl ENOENT
                           | Some r \<Rightarrow> Inr (drop_xattrs (render (dir @ [leaf])) (w\<lparr>fs_root := r\<rparr>)))
                      | Some (Symlink t) \<Rightarrow>
                          (case set_entries (fs_root w) dir (remove_entry leaf es) of
                             None \<Rightarrow> Inl ENOENT
                           | Some r \<Rightarrow> Inr (w\<lparr>fs_root := r\<rparr>))))
           | Some (File b) \<Rightarrow> Inl ENOTDIR
           | Some (Symlink t) \<Rightarrow> Inl ENOTDIR
           | None \<Rightarrow> Inl ENOENT))"

definition posix_rmdir :: "world \<Rightarrow> string \<Rightarrow> errno + world" where
  "posix_rmdir w p =
     (case parent_leaf (fs_root w) p of
        None \<Rightarrow> Inl EINVAL
      | Some (dir, leaf) \<Rightarrow>
          (case walk (fs_root w) dir of
             Some (Dir m es) \<Rightarrow>
               (if m \<noteq> Mode_rwx then Inl EACCES
                else (case map_of es leaf of
                        None \<Rightarrow> Inl ENOENT
                      | Some (Dir m' es') \<Rightarrow>
                          (if es' \<noteq> [] then Inl ENOTEMPTY
                           else (case set_entries (fs_root w) dir (remove_entry leaf es) of
                                   None \<Rightarrow> Inl ENOENT
                                 | Some r \<Rightarrow>
                                     Inr (drop_xattrs (render (dir @ [leaf])) (w\<lparr>fs_root := r\<rparr>))))
                      | Some (File b) \<Rightarrow> Inl ENOTDIR
                      | Some (Symlink t) \<Rightarrow> Inl ENOTDIR))
           | Some (File b) \<Rightarrow> Inl ENOTDIR
           | Some (Symlink t) \<Rightarrow> Inl ENOTDIR
           | None \<Rightarrow> Inl ENOENT))"

text \<open>
  \<^verbatim>\<open>rename\<close>: both parent directories must be writable, and so must a directory that
  is renamed (its \<^verbatim>\<open>..\<close> entry is written); a directory replaces an empty directory
  only, a file or link replaces a file or link only, and a directory does not move below
  itself.
\<close>

definition writable_node :: "node \<Rightarrow> bool" where
  "writable_node nd = (case nd of Dir m es \<Rightarrow> m = Mode_rwx | File b \<Rightarrow> True | Symlink t \<Rightarrow> True)"

definition rename_blocked :: "node \<Rightarrow> node option \<Rightarrow> bool" where
  "rename_blocked src dst =
     (case dst of
        None \<Rightarrow> False
      | Some (Dir m es) \<Rightarrow> \<not> is_dir_node src \<or> es \<noteq> []
      | Some (File b) \<Rightarrow> is_dir_node src
      | Some (Symlink t) \<Rightarrow> is_dir_node src)"

definition rekey :: "string \<Rightarrow> string \<Rightarrow> string \<Rightarrow> string" where
  "rekey src dst k =
     (if k = src \<or> prefix (src @ ''/'') k then dst @ drop (length src) k else k)"

definition posix_rename :: "world \<Rightarrow> string \<Rightarrow> string \<Rightarrow> errno + world" where
  "posix_rename w a b =
     (case parent_leaf (fs_root w) a of
        None \<Rightarrow> Inl ENOENT
      | Some (d1, l1) \<Rightarrow>
          (case parent_leaf (fs_root w) b of
             None \<Rightarrow> Inl ENOENT
           | Some (d2, l2) \<Rightarrow>
               (case walk (fs_root w) d1 of
                  Some (Dir m1 es1) \<Rightarrow>
                    (case walk (fs_root w) d2 of
                       Some (Dir m2 es2) \<Rightarrow>
                         (case map_of es1 l1 of
                            None \<Rightarrow> Inl ENOENT
                          | Some src \<Rightarrow>
                              (if m1 \<noteq> Mode_rwx \<or> m2 \<noteq> Mode_rwx then Inl EACCES
                               else if (trailing_slash a \<or> trailing_slash b) \<and> \<not> is_dir_node src
                               then Inl ENOTDIR
                               else if d1 @ [l1] = d2 @ [l2] then Inr w
                               else if \<not> writable_node src then Inl EACCES
                               else if is_dir_node src \<and> prefix (d1 @ [l1]) d2 then Inl EINVAL
                               else if rename_blocked src (map_of es2 l2) then Inl ENOTEMPTY
                               else
                                 (case set_entries (fs_root w) d1 (remove_entry l1 es1) of
                                    None \<Rightarrow> Inl ENOENT
                                  | Some r1 \<Rightarrow>
                                      (case walk r1 d2 of
                                         Some (Dir m2' es2') \<Rightarrow>
                                           (case set_entries r1 d2 (put_entry l2 src es2') of
                                              None \<Rightarrow> Inl ENOENT
                                            | Some r2 \<Rightarrow>
                                                Inr (w\<lparr>fs_root := r2,
                                                       xattrs := map (\<lambda>(k, v). (rekey (render (d1 @ [l1]))
                                                                                  (render (d2 @ [l2])) k, v))
                                                                   (filter (\<lambda>(k, v). k \<noteq> render (d2 @ [l2]))
                                                                      (xattrs w))\<rparr>))
                                       | Some (File b) \<Rightarrow> Inl ENOTDIR
                                       | Some (Symlink t) \<Rightarrow> Inl ENOTDIR
                                       | None \<Rightarrow> Inl ENOENT))))
                     | Some (File b) \<Rightarrow> Inl ENOTDIR
                     | Some (Symlink t) \<Rightarrow> Inl ENOTDIR
                     | None \<Rightarrow> Inl ENOENT)
                | Some (File b) \<Rightarrow> Inl ENOTDIR
                | Some (Symlink t) \<Rightarrow> Inl ENOTDIR
                | None \<Rightarrow> Inl ENOENT)))"

text \<open>\<^verbatim>\<open>open\<close> with \<^verbatim>\<open>O_WRONLY | O_CREAT\<close>: an existing file is opened at offset 0 and keeps
  its bytes, a missing one is created empty in a writable directory.\<close>

definition new_fd :: "world \<Rightarrow> nat" where
  "new_fd w = Suc (fold max (map fst (open_files w)) 2)"

definition posix_open :: "world \<Rightarrow> string \<Rightarrow> errno + (nat \<times> world)" where
  "posix_open w p =
     (case resolve_dir (fs_root w) (c_str p) of
        Some ns \<Rightarrow>
          (case walk (fs_root w) ns of
             Some (File b) \<Rightarrow> Inr (new_fd w, w\<lparr>open_files := (new_fd w, ns, 0) # open_files w\<rparr>)
           | Some (Dir m es) \<Rightarrow> Inl EISDIR
           | Some (Symlink t) \<Rightarrow> Inl ENOENT
           | None \<Rightarrow> Inl ENOENT)
      | None \<Rightarrow>
          (case parent_leaf (fs_root w) p of
             None \<Rightarrow> Inl ENOENT
           | Some (dir, leaf) \<Rightarrow>
               (case walk (fs_root w) dir of
                  Some (Dir m es) \<Rightarrow>
                    (if map_of es leaf \<noteq> None then Inl ENOENT
                     else if trailing_slash p then Inl EISDIR
                     else if m \<noteq> Mode_rwx then Inl EACCES
                     else (case set_entries (fs_root w) dir (es @ [(leaf, File [])]) of
                             None \<Rightarrow> Inl ENOENT
                           | Some r \<Rightarrow>
                               Inr (new_fd w,
                                    w\<lparr>fs_root := r,
                                      open_files := (new_fd w, dir @ [leaf], 0) # open_files w\<rparr>)))
                | Some (File b) \<Rightarrow> Inl ENOTDIR
                | Some (Symlink t) \<Rightarrow> Inl ENOTDIR
                | None \<Rightarrow> Inl ENOENT)))"

text \<open>\<^verbatim>\<open>write\<close> fails (\<^verbatim>\<open>ENOSPC\<close>) when the file would grow by more than the space left.\<close>

definition posix_write :: "world \<Rightarrow> nat \<Rightarrow> string \<Rightarrow> int \<times> world" where
  "posix_write w fd buf =
     (case map_of (open_files w) fd of
        None \<Rightarrow> (- 1, w)
      | Some (ns, off) \<Rightarrow>
          (case walk (fs_root w) ns of
             Some (File b) \<Rightarrow>
               (let b' = take off b @ buf @ drop (off + length buf) b
                in if length b' - length b > free_space w then (- 1, w)
                   else (case modify (fs_root w) ns (\<lambda>nd. Some (File b')) of
                           None \<Rightarrow> (- 1, w)
                         | Some r \<Rightarrow>
                             (int (length buf),
                              w\<lparr>fs_root := r,
                                free_space := free_space w - (length b' - length b),
                                open_files := map (\<lambda>(k, v). if k = fd then (k, ns, off + length buf)
                                                               else (k, v)) (open_files w)\<rparr>)))
           | Some (Dir m es) \<Rightarrow> (- 1, w)
           | Some (Symlink t) \<Rightarrow> (- 1, w)
           | None \<Rightarrow> (- 1, w)))"

definition posix_close :: "world \<Rightarrow> nat \<Rightarrow> world" where
  "posix_close w fd = w\<lparr>open_files := filter (\<lambda>(k, v). k \<noteq> fd) (open_files w)\<rparr>"

text \<open>
  Extended attributes: a name has at most \<^verbatim>\<open>XATTR_NAME_MAX\<close> = 255 bytes, a value at most
  \<^verbatim>\<open>XATTR_SIZE_MAX\<close> = 65536. \<^verbatim>\<open>listxattr\<close> gives the names, each followed by a NUL.
  Setting and removing an attribute needs write access to the file or directory, reading
  its value read access.
\<close>

definition file_node :: "world \<Rightarrow> string \<Rightarrow> node option" where
  "file_node w p =
     (case resolve_dir (fs_root w) (c_str p) of
        None \<Rightarrow> None
      | Some ns \<Rightarrow> walk (fs_root w) ns)"

definition can_write :: "world \<Rightarrow> string \<Rightarrow> bool" where
  "can_write w p = (case file_node w p of None \<Rightarrow> False | Some nd \<Rightarrow> writable_node nd)"

definition can_read :: "world \<Rightarrow> string \<Rightarrow> bool" where
  "can_read w p =
     (case file_node w p of
        None \<Rightarrow> False
      | Some (Dir m es) \<Rightarrow> m \<noteq> Mode_none
      | Some (File b) \<Rightarrow> True
      | Some (Symlink t) \<Rightarrow> True)"

definition XATTR_NAME_MAX :: nat where
  "XATTR_NAME_MAX = 255"

definition XATTR_SIZE_MAX :: nat where
  "XATTR_SIZE_MAX = 65536"

definition file_xattrs :: "world \<Rightarrow> string \<Rightarrow> (string \<times> string) list option" where
  "file_xattrs w p =
     (case realpath (fs_root w) (c_str p) of
        None \<Rightarrow> None
      | Some f \<Rightarrow> Some (case map_of (xattrs w) f of None \<Rightarrow> [] | Some xs \<Rightarrow> xs))"

definition set_file_xattrs :: "world \<Rightarrow> string \<Rightarrow> (string \<times> string) list \<Rightarrow> world" where
  "set_file_xattrs w f xs = w\<lparr>xattrs := filter (\<lambda>(k, v). k \<noteq> f) (xattrs w) @ [(f, xs)]\<rparr>"

definition posix_listxattr :: "world \<Rightarrow> string \<Rightarrow> string option" where
  "posix_listxattr w p = map_option (\<lambda>xs. concat (map (\<lambda>(n, v). n @ [NUL]) xs)) (file_xattrs w p)"

definition posix_getxattr :: "world \<Rightarrow> string \<Rightarrow> string \<Rightarrow> string option" where
  "posix_getxattr w p name =
     (case file_xattrs w p of
        None \<Rightarrow> None
      | Some xs \<Rightarrow> (if can_read w p then map_of xs (c_str name) else None))"

definition posix_setxattr :: "world \<Rightarrow> string \<Rightarrow> string \<Rightarrow> string \<Rightarrow> errno + world" where
  "posix_setxattr w p name val =
     (case file_xattrs w p of
        None \<Rightarrow> Inl ENOENT
      | Some xs \<Rightarrow>
          (if \<not> can_write w p then Inl EACCES
           else if c_str name = [] \<or> length (c_str name) > XATTR_NAME_MAX then Inl ERANGE
           else if length val > XATTR_SIZE_MAX then Inl ENOSPC
           else Inr (set_file_xattrs w (the (realpath (fs_root w) (c_str p)))
                       (if map_of xs (c_str name) = None then xs @ [(c_str name, val)]
                        else map (\<lambda>(n, v). if n = c_str name then (n, val) else (n, v)) xs))))"

definition posix_removexattr :: "world \<Rightarrow> string \<Rightarrow> string \<Rightarrow> errno + world" where
  "posix_removexattr w p name =
     (case file_xattrs w p of
        None \<Rightarrow> Inl ENOENT
      | Some xs \<Rightarrow>
          (if \<not> can_write w p then Inl EACCES
           else if map_of xs (c_str name) = None then Inl ENODATA
           else Inr (set_file_xattrs w (the (realpath (fs_root w) (c_str p)))
                       (filter (\<lambda>(n, v). n \<noteq> c_str name) xs))))"

definition posix :: "world os" where
  "posix =
     \<lparr>os_realpath = (\<lambda>w. realpath (fs_root w)),
      os_stat_isdir = posix_stat_isdir,
      os_rename = posix_rename,
      os_mkdir = posix_mkdir,
      os_unlink = posix_unlink,
      os_rmdir = posix_rmdir,
      os_opendir = posix_opendir,
      os_open = posix_open,
      os_write = posix_write,
      os_close = posix_close,
      os_listxattr = posix_listxattr,
      os_getxattr = posix_getxattr,
      os_setxattr = posix_setxattr,
      os_removexattr = posix_removexattr\<rparr>"

section \<open>An example site\<close>

text \<open>
  The mount of the spec's scenarios: the docroot \<^verbatim>\<open>/srv/dav\<close> with two files, a
  collection \<^verbatim>\<open>d\<close> that holds a file and a directory the server may not read, a
  collection \<^verbatim>\<open>ro\<close> the server may not write to, a collection \<^verbatim>\<open>t\<close> with a file, a
  subdirectory and a link, and a link that leaves the docroot;
  beside the docroot a file that is not served. Three bytes are left on the device, and
  the lock cache holds a lock on \<^verbatim>\<open>/a.txt\<close>.
\<close>

definition example_root :: node where
  "example_root =
     Dir Mode_rwx
       [(''srv'', Dir Mode_rwx
          [(''dav'', Dir Mode_rwx
             [(''a.txt'', File ''hello''),
              (''b.txt'', File ''bye''),
              (''d'', Dir Mode_rwx [(''x'', File ''hi''), (''s'', Dir Mode_none [])]),
              (''ro'', Dir Mode_rx []),
              (''t'', Dir Mode_rwx
                 [(''a'', File ''1''),
                  (''sub'', Dir Mode_rwx [(''b'', File ''2'')]),
                  (''lnk'', Symlink ''../../secret'')]),
              (''out'', Symlink ''../secret'')]),
           (''secret'', File ''key'')])]"

definition example_world :: world where
  "example_world =
     \<lparr>fs_root = example_root, free_space = 3, open_files = [], xattrs = [],
      lock_cache = [(''http://h/a.txt'', ''opaquelocktoken:1'')]\<rparr>"

definition example_request :: wsgi_request where
  "example_request =
     \<lparr>docroot = ''/srv/dav'', path_info = ''/a.txt'', scheme = ''http'', host = ''h'',
      vars = [], post_cl = 0, body_stream = [],
      status_lines = [], resp_headers = [], resp_body = []\<rparr>"


section \<open>C strings\<close>

lemma c_str_append: "NUL \<notin> set a \<Longrightarrow> c_str (a @ b) = a @ c_str b"
  by (induction a) (auto simp add: c_str_def)

lemma c_str_id: "NUL \<notin> set a \<Longrightarrow> c_str a = a"
  by (induction a) (auto simp add: c_str_def)

lemma NUL_c_str: "NUL \<notin> set (c_str s)"
  by (induction s) (auto simp add: c_str_def)

section \<open>The status of a response\<close>

lemma status_prepare: "response_status (snd (uwsgi_response_prepare_headers req s)) = Some s"
  by (simp add: response_status_def uwsgi_response_prepare_headers_def)

lemma status_403: "response_status (uwsgi_403 req) = Some ''403 Forbidden''"
  by (simp add: response_status_def uwsgi_403_def uwsgi_response_prepare_headers_def)

lemma status_404: "response_status (uwsgi_404 req) = Some ''404 Not Found''"
  by (simp add: response_status_def uwsgi_404_def uwsgi_response_prepare_headers_def)

section \<open>The path resolvers\<close>

lemma split_path_nonempty: "split_path p \<noteq> []"
  by (induction p) (auto split: list.splits)

lemma split_path_append: "split_path (a @ CHR ''/'' # b) = split_path a @ split_path b"
proof (induction a)
  case Nil
  then show ?case by simp
next
  case (Cons x a)
  then show ?case
    using split_path_nonempty [of a]
    by (cases "split_path a") auto
qed

lemma split_path_plain: "CHR ''/'' \<notin> set n \<Longrightarrow> split_path n = [n]"
  by (induction n) auto

lemma walk_append: "walk nd (a @ b) = (case walk nd a of None \<Rightarrow> None | Some x \<Rightarrow> walk x b)"
  by (induction a arbitrary: nd) (auto split: option.splits)

lemma no_links_entry: "no_links s \<Longrightarrow> entry s n = Some c \<Longrightarrow> no_links c"
  by (cases s) (auto split: if_splits dest!: map_of_SomeD)

lemma no_links_walk: "no_links s \<Longrightarrow> walk s e = Some y \<Longrightarrow> no_links y"
  by (induction e arbitrary: s) (auto split: option.splits dest: no_links_entry)

lemma render_append: "d \<noteq> [] \<Longrightarrow> render (d @ e) = render d @ concat (map (\<lambda>c. CHR ''/'' # c) e)"
  by (simp add: render_def)

lemma split_render: "list_all plain_name d \<Longrightarrow> d \<noteq> [] \<Longrightarrow> split_path (render d @ CHR ''/'' # rest) = [] # d @ split_path rest"
proof -
  have "list_all plain_name d \<Longrightarrow> split_path (concat (map (\<lambda>c. CHR ''/'' # c) d) @ CHR ''/'' # rest) = [] # d @ split_path rest" for d
  proof (induction d)
    case Nil
    then show ?case by simp
  next
    case (Cons n d)
    then have n: "CHR ''/'' \<notin> set n" by (simp add: plain_name_def)
    have "split_path (n @ concat (map (\<lambda>c. CHR ''/'' # c) d) @ CHR ''/'' # rest) = n # d @ split_path rest"
    proof (cases d)
      case Nil
      with n show ?thesis by (simp add: split_path_append split_path_plain)
    next
      case (Cons m d')
      with Cons.IH Cons.prems n show ?thesis
        using split_path_append [of n "m @ concat (map (\<lambda>c. CHR ''/'' # c) d') @ CHR ''/'' # rest"]
        by (simp add: split_path_plain)
    qed
    then show ?case by simp
  qed
  then show "list_all plain_name d \<Longrightarrow> d \<noteq> [] \<Longrightarrow> split_path (render d @ CHR ''/'' # rest) = [] # d @ split_path rest"
    by (simp add: render_def)
qed


lemma resolve_canonical:
  "list_all plain_name d \<Longrightarrow> walk root (pre @ d) = Some nd \<Longrightarrow> \<not> is_link (Some nd) \<Longrightarrow>
   resolve root links pre (d @ cs) = resolve root links (pre @ d) cs"
proof (induction d arbitrary: pre)
  case Nil
  then show ?case by simp
next
  case (Cons c d)
  from Cons.prems(1) have c: "c \<noteq> []" "c \<noteq> ''.''" "c \<noteq> ''..''"
    by (auto simp add: plain_name_def)
  from Cons.prems(2) obtain x where x: "walk root (pre @ [c]) = Some x" and rest: "walk x d = Some nd"
    using walk_append [of root "pre @ [c]" d] by (auto split: option.splits)
  have nolink: "\<not> is_link (Some x)"
  proof (cases d)
    case Nil
    with rest Cons.prems(3) show ?thesis by simp
  next
    case (Cons m d')
    with rest show ?thesis by (cases x) (auto simp add: is_link_def split: option.splits)
  qed
  from Cons.prems have ih: "resolve root links (pre @ [c]) (d @ cs) = resolve root links ((pre @ [c]) @ d) cs"
    by (intro Cons.IH) auto
  from x nolink c have "resolve root links pre ((c # d) @ cs) = resolve root links (pre @ [c]) (d @ cs)"
    by (cases x) (auto simp add: is_link_def)
  with ih show ?case by simp
qed

lemma resolve_stays:
  "no_links sub \<Longrightarrow> walk root d = Some sub \<Longrightarrow> ''..'' \<notin> set cs \<Longrightarrow> walk sub e = Some x \<Longrightarrow>
   resolve root links (d @ e) cs = Some r \<Longrightarrow> prefix d r"
proof (induction cs arbitrary: e x)
  case Nil
  then show ?case by auto
next
  case (Cons c cs)
  show ?case
  proof (cases "c = [] \<or> c = ''.''")
    case True
    with Cons.prems have "resolve root links (d @ e) cs = Some r"
      by (auto split: if_splits)
    with Cons.IH [of e x] Cons.prems show ?thesis by simp
  next
    case False
    with Cons.prems(3) have c: "c \<noteq> []" "c \<noteq> ''.''" "c \<noteq> ''..''" by auto
    have w: "walk root ((d @ e) @ [c]) = walk sub (e @ [c])"
      using Cons.prems(2) walk_append [of root d "e @ [c]"] by simp
    from Cons.prems(5) c obtain y where y: "walk sub (e @ [c]) = Some y"
      using w by (auto split: option.splits)
    with Cons.prems(1) have "no_links y" by (rule no_links_walk)
    then have notlink: "\<forall>t. y \<noteq> Symlink t" by auto
    from Cons.prems(5) c w y notlink have "resolve root links (d @ (e @ [c])) cs = Some r"
      by (cases y) auto
    with Cons.IH [of "e @ [c]" y] Cons.prems y show ?thesis by simp
  qed
qed


lemma under_docroot_render:
  assumes "d \<noteq> []" and "prefix d r"
  shows "under_docroot (render d) (render r)"
proof -
  from assms(2) obtain e where r: "r = d @ e" by (auto simp add: prefix_def)
  show ?thesis
  proof (cases e)
    case Nil
    with r show ?thesis by (simp add: under_docroot_def)
  next
    case (Cons c e')
    with r assms(1) show ?thesis
      by (simp add: under_docroot_def render_append)
  qed
qed

lemma NUL_render: "list_all plain_name d \<Longrightarrow> NUL \<notin> set (render d)"
  by (induction d) (auto simp add: render_def plain_name_def NUL_def)

text \<open>
  C1, escape safety, as amended: the strict resolver makes no containment check of its
  own, it returns what \<^verbatim>\<open>realpath\<close> returns. For a docroot that is the canonical path
  of a directory other than the root with no symbolic link below it, and a request path
  with no \<^verbatim>\<open>..\<close> component, the resolver fails or returns a path under the docroot.
\<close>

theorem expand_path_stays_under_docroot:
  assumes names: "list_all plain_name d" and nonroot: "d \<noteq> []"
    and sub: "walk root d = Some sub" and nolinks: "no_links sub"
    and nodots: "''..'' \<notin> set (split_path (c_str item))"
    and res: "uwsgi_webdav_expand_path (realpath root) (render d) item = Some f"
  shows "under_docroot (render d) f"
proof -
  have "c_str (CHR ''/'' # item) = CHR ''/'' # c_str item"
    by (simp add: c_str_def NUL_def)
  with c_str_append [OF NUL_render [OF names], of "CHR ''/'' # item"]
  have path: "c_str (render d @ CHR ''/'' # item) = render d @ CHR ''/'' # c_str item"
    by simp
  from res obtain r where r: "resolve_dir root (render d @ CHR ''/'' # c_str item) = Some r"
    and f: "f = render r"
    by (auto simp add: uwsgi_webdav_expand_path_def realpath_def path split: option.splits if_splits)
  from nolinks have notlink: "\<not> is_link (Some sub)"
    by (cases sub) (auto simp add: is_link_def)
  from r have "resolve root MAXSYMLINKS [] ([] # d @ split_path (c_str item)) = Some r"
    by (simp add: resolve_dir_def split_render [OF names nonroot] split: if_splits)
  then have "resolve root MAXSYMLINKS [] (d @ split_path (c_str item)) = Some r"
    by (simp split: if_splits)
  with resolve_canonical [OF names _ notlink, of root "[]"] sub
  have "resolve root MAXSYMLINKS (d @ []) (split_path (c_str item)) = Some r"
    by simp
  from resolve_stays [OF nolinks sub nodots _ this] have "prefix d r"
    by simp
  with nonroot f show ?thesis
    by (simp add: under_docroot_render)
qed


text \<open>The mount \<^verbatim>\<open>/srv/dav/d\<close> of the example site and the request path \<^verbatim>\<open>/x\<close>.\<close>

theorem expand_path_stays_under_docroot_witness:
  "list_all plain_name [''srv'', ''dav'', ''d'']
   \<and> walk example_root [''srv'', ''dav'', ''d'']
         = Some (Dir Mode_rwx [(''x'', File ''hi''), (''s'', Dir Mode_none [])])
   \<and> no_links (Dir Mode_rwx [(''x'', File ''hi''), (''s'', Dir Mode_none [])])
   \<and> ''..'' \<notin> set (split_path (c_str ''/x''))
   \<and> uwsgi_webdav_expand_path (realpath example_root) ''/srv/dav/d'' ''/x'' = Some ''/srv/dav/d/x''
   \<and> under_docroot ''/srv/dav/d'' ''/srv/dav/d/x''"
proof -
  have names: "list_all plain_name [''srv'', ''dav'', ''d'']"
    by (simp add: plain_name_def NUL_def)
  have sub: "walk example_root [''srv'', ''dav'', ''d'']
               = Some (Dir Mode_rwx [(''x'', File ''hi''), (''s'', Dir Mode_none [])])"
    by code_simp
  have nolinks: "no_links (Dir Mode_rwx [(''x'', File ''hi''), (''s'', Dir Mode_none [])])"
    by simp
  have nodots: "''..'' \<notin> set (split_path (c_str ''/x''))"
    by (simp add: c_str_def NUL_def)
  have docroot: "render [''srv'', ''dav'', ''d''] = ''/srv/dav/d''"
    by (simp add: render_def)
  have res: "uwsgi_webdav_expand_path (realpath example_root) ''/srv/dav/d'' ''/x'' = Some ''/srv/dav/d/x''"
    by code_simp
  from expand_path_stays_under_docroot [OF names _ sub nolinks nodots, of "''/srv/dav/d/x''"] res
  have "under_docroot ''/srv/dav/d'' ''/srv/dav/d/x''"
    by (simp add: docroot)
  with names sub nolinks nodots res show ?thesis by blast
qed

text \<open>
  C1, escape safety, as the claim states it, fails: on the example site, with the docroot
  \<^verbatim>\<open>/srv/dav\<close>, the request paths \<^verbatim>\<open>/../secret\<close> and \<^verbatim>\<open>/out\<close> (a link to
  \<^verbatim>\<open>../secret\<close>) both resolve to \<^verbatim>\<open>/srv/secret\<close>, which is not under the docroot.
\<close>

theorem expand_path_escape_counterexample:
  "uwsgi_webdav_expand_path (realpath example_root) ''/srv/dav'' ''/../secret'' = Some ''/srv/secret''
   \<and> uwsgi_webdav_expand_path (realpath example_root) ''/srv/dav'' ''/out'' = Some ''/srv/secret''
   \<and> \<not> under_docroot ''/srv/dav'' ''/srv/secret''"
  by code_simp

lemma last_charn_split:
  "uwsgi_get_last_charn item c = Some k \<Longrightarrow>
   item = take k item @ c # drop (Suc k) item \<and> c \<notin> set (drop (Suc k) item)"
proof (induction item arbitrary: k)
  case Nil
  then show ?case by simp
next
  case (Cons x xs)
  show ?case
  proof (cases "uwsgi_get_last_charn xs c")
    case None
    have "c \<notin> set xs"
      using None by (induction xs) (auto split: option.splits if_splits)
    with Cons.prems None show ?thesis by (auto split: if_splits)
  next
    case (Some j)
    with Cons.prems have k: "k = Suc j" by simp
    from Cons.IH [OF Some] k show ?thesis by simp
  qed
qed

lemma resolve_append:
  "resolve root links cur cs = Some r \<Longrightarrow> cs = xs @ [c0] \<Longrightarrow>
   \<exists>g links'. resolve root links cur xs = Some g \<and> resolve root links' g [c0] = Some r"
proof (induction root links cur cs arbitrary: xs rule: resolve.induct)
  case (1 root links cur)
  then show ?case by simp
next
  case (2 root links cur c cs)
  show ?case
  proof (cases xs)
    case Nil
    with "2.prems" have "resolve root links cur [c0] = Some r" by simp
    moreover from Nil have "resolve root links cur xs = Some cur" by simp
    ultimately show ?thesis by blast
  next
    case (Cons x xs')
    with "2.prems"(2) have cx: "c = x" and cs: "cs = xs' @ [c0]" by auto
    show ?thesis
    proof (cases "c = [] \<or> c = ''.''")
      case True
      with "2.prems"(1) have isdir: "dir_at root cur"
        and "resolve root links cur cs = Some r"
        by (auto split: if_splits)
      from "2.IH"(1) [OF True isdir this(2) cs] True isdir cx Cons show ?thesis by auto
    next
      case False
      note notdot = this
      show ?thesis
      proof (cases "c = ''..''")
        case True
        with notdot "2.prems"(1) have isdir: "dir_at root cur"
          and "resolve root links (butlast cur) cs = Some r"
          by (auto split: if_splits)
        from "2.IH"(2) [OF notdot True isdir this(2) cs] True notdot isdir cx Cons
        show ?thesis by auto
      next
        case False
        note notdotdot = this
        from "2.prems"(1) notdot notdotdot obtain y where y: "walk root (cur @ [c]) = Some y"
          by (auto split: option.splits)
        show ?thesis
        proof (cases y)
          case (File b)
          with "2.prems"(1) notdot notdotdot y
          have "resolve root links (cur @ [c]) cs = Some r" by auto
          from "2.IH"(3) [OF notdot notdotdot y File this cs] notdot notdotdot y File cx Cons
          show ?thesis by auto
        next
          case (Dir m es)
          with "2.prems"(1) notdot notdotdot y
          have "resolve root links (cur @ [c]) cs = Some r" by auto
          from "2.IH"(4) [OF notdot notdotdot y Dir this cs] notdot notdotdot y Dir cx Cons
          show ?thesis by auto
        next
          case (Symlink t)
          with "2.prems"(1) notdot notdotdot y
          have ok: "\<not> (links = 0 \<or> t = [])"
            and rec: "resolve root (links - 1) (if hd t = CHR ''/'' then [] else cur)
                        (split_path t @ cs) = Some r"
            by (auto split: if_splits)
          have "split_path t @ cs = (split_path t @ xs') @ [c0]"
            using cs by simp
          from "2.IH"(5) [OF notdot notdotdot y Symlink ok rec this] notdot notdotdot y Symlink ok cx Cons
          show ?thesis by auto
        qed
      qed
    qed
  qed
qed


lemma last_charn_less: "uwsgi_get_last_charn item c = Some k \<Longrightarrow> k < length item"
  by (induction item arbitrary: k) (auto split: option.splits if_splits)

lemma last_charn_drop:
  assumes "uwsgi_get_last_charn item c = Some k"
  shows "drop k item = c # drop (Suc k) item"
proof -
  from last_charn_split [OF assms] have "item = take k item @ c # drop (Suc k) item" by simp
  then have "drop k item = drop k (take k item @ c # drop (Suc k) item)" by simp
  also have "\<dots> = c # drop (Suc k) item"
    using last_charn_less [OF assms] by simp
  finally show ?thesis .
qed

lemma resolve_leaf:
  assumes "resolve root links g [leaf] = Some r" and "plain_name leaf"
  shows "walk root (g @ [leaf]) \<noteq> None
         \<and> (\<not> is_link (walk root (g @ [leaf])) \<longrightarrow> r = g @ [leaf])"
proof -
  from assms(2) have "leaf \<noteq> []" "leaf \<noteq> ''.''" "leaf \<noteq> ''..''"
    by (auto simp add: plain_name_def)
  with assms(1) show ?thesis
    by (auto simp add: is_link_def split: option.splits node.splits if_splits)
qed

lemma render_nonempty: "render g \<noteq> []"
  by (cases g) (auto simp add: render_def)

text \<open>
  C2, parent resolution parity, as amended. If the strict resolver succeeds on a request
  path whose last slash is followed by a plain name (and no NUL byte comes before it), then
  the part before the last slash resolves to a directory \<open>g\<close> and the last component
  exists in \<open>g\<close>; and if \<open>g\<close> is not the root of the file system and the last
  component is not a symbolic link, the parent resolver succeeds and returns the same path.
\<close>

theorem fake_path_parity:
  assumes strict: "uwsgi_webdav_expand_path (realpath root) base item = Some f"
    and slash: "uwsgi_get_last_charn item (CHR ''/'') = Some k"
    and leaf: "plain_name (drop (Suc k) item)"
    and nonul: "NUL \<notin> set base" "NUL \<notin> set (take k item)"
  shows "\<exists>g. resolve_dir root (base @ ''/'' @ take k item) = Some g
           \<and> walk root (g @ [drop (Suc k) item]) \<noteq> None
           \<and> (g \<noteq> [] \<and> \<not> is_link (walk root (g @ [drop (Suc k) item]))
                \<longrightarrow> uwsgi_webdav_expand_fake_path (realpath root) base item = Some f)"
proof -
  define pre where "pre = take k item"
  define name where "name = drop (Suc k) item"
  from last_charn_split [OF slash] have item: "item = pre @ CHR ''/'' # name"
    by (simp add: pre_def name_def)
  from leaf have name: "CHR ''/'' \<notin> set name" "NUL \<notin> set name"
    by (auto simp add: plain_name_def name_def)
  have "NUL \<noteq> CHR ''/''" by (simp add: NUL_def)
  with nonul have nul_pre: "NUL \<notin> set (base @ CHR ''/'' # pre)"
    by (simp add: pre_def)
  have "set (base @ CHR ''/'' # item) = set (base @ CHR ''/'' # pre) \<union> insert (CHR ''/'') (set name)"
    by (subst item) auto
  with nul_pre name(2) \<open>NUL \<noteq> CHR ''/''\<close> have nul_full: "NUL \<notin> set (base @ CHR ''/'' # item)"
    by blast
  from strict obtain r where r: "resolve_dir root (base @ CHR ''/'' # item) = Some r"
    and f: "f = render r" and short: "length (render r) < PATH_MAX"
    by (auto simp add: uwsgi_webdav_expand_path_def realpath_def c_str_id [OF nul_full]
          split: option.splits if_splits)
  have "split_path (base @ CHR ''/'' # item) = split_path (base @ CHR ''/'' # pre) @ [name]"
    using split_path_append [of "base @ CHR ''/'' # pre" name] name(1)
    by (simp add: item split_path_plain)
  with r have "resolve root MAXSYMLINKS [] (split_path (base @ CHR ''/'' # pre) @ [name]) = Some r"
    by (simp add: resolve_dir_def)
  from resolve_append [OF this refl] obtain g links' where
    g: "resolve root MAXSYMLINKS [] (split_path (base @ CHR ''/'' # pre)) = Some g"
    and last: "resolve root links' g [name] = Some r"
    by blast
  from g have parent: "resolve_dir root (base @ ''/'' @ take k item) = Some g"
    by (simp add: resolve_dir_def pre_def)
  from resolve_leaf [OF last] leaf have exists: "walk root (g @ [name]) \<noteq> None"
    and same: "\<not> is_link (walk root (g @ [name])) \<Longrightarrow> r = g @ [name]"
    by (auto simp add: name_def)
  have "uwsgi_webdav_expand_fake_path (realpath root) base item = Some f"
    if "g \<noteq> []" and "\<not> is_link (walk root (g @ [name]))"
  proof -
    from same that have "r = g @ [name]" by simp
    with that(1) have fr: "f = render g @ CHR ''/'' # name"
      by (simp add: f render_append)
    from short have "length f < PATH_MAX"
      by (simp add: f)
    then have len: "length (render g) + Suc (length name) < PATH_MAX"
      by (simp add: fr)
    from parent len have "realpath root (base @ CHR ''/'' # pre) = Some (render g)"
      by (simp add: realpath_def pre_def)
    then have "uwsgi_webdav_expand_path (realpath root) base pre = Some (render g)"
      by (simp add: uwsgi_webdav_expand_path_def c_str_id [OF nul_pre] render_nonempty)
    moreover have "drop k item = CHR ''/'' # name"
      using last_charn_drop [OF slash] by (simp add: name_def)
    moreover have "length item - k = Suc (length name)"
      using last_charn_less [OF slash] by (simp add: name_def)
    ultimately show ?thesis
      using slash len fr
      by (simp add: uwsgi_webdav_expand_fake_path_def pre_def)
  qed
  with parent exists show ?thesis
    by (auto simp add: name_def)
qed

text \<open>The request path \<^verbatim>\<open>/d/x\<close> on the example site.\<close>

theorem fake_path_parity_witness:
  "uwsgi_webdav_expand_path (realpath example_root) ''/srv/dav'' ''/d/x'' = Some ''/srv/dav/d/x''
   \<and> uwsgi_get_last_charn ''/d/x'' (CHR ''/'') = Some 2
   \<and> plain_name (drop (Suc 2) ''/d/x'')
   \<and> resolve_dir example_root (''/srv/dav'' @ ''/'' @ take 2 ''/d/x'') = Some [''srv'', ''dav'', ''d'']
   \<and> walk example_root ([''srv'', ''dav'', ''d''] @ [drop (Suc 2) ''/d/x'']) = Some (File ''hi'')
   \<and> uwsgi_webdav_expand_fake_path (realpath example_root) ''/srv/dav'' ''/d/x'' = Some ''/srv/dav/d/x''"
proof -
  have strict: "uwsgi_webdav_expand_path (realpath example_root) ''/srv/dav'' ''/d/x'' = Some ''/srv/dav/d/x''"
    by code_simp
  have slash: "uwsgi_get_last_charn ''/d/x'' (CHR ''/'') = Some 2"
    by code_simp
  have leaf: "plain_name (drop (Suc 2) ''/d/x'')"
    by (simp add: plain_name_def NUL_def)
  have nonul: "NUL \<notin> set ''/srv/dav''" "NUL \<notin> set (take 2 ''/d/x'')"
    by (simp_all add: NUL_def)
  have parent: "resolve_dir example_root (''/srv/dav'' @ ''/'' @ take 2 ''/d/x'') = Some [''srv'', ''dav'', ''d'']"
    by code_simp
  have node: "walk example_root ([''srv'', ''dav'', ''d''] @ [drop (Suc 2) ''/d/x'']) = Some (File ''hi'')"
    by code_simp
  from fake_path_parity [OF strict slash leaf nonul] parent node
  have "uwsgi_webdav_expand_fake_path (realpath example_root) ''/srv/dav'' ''/d/x'' = Some ''/srv/dav/d/x''"
    by (simp add: is_link_def)
  with strict slash leaf parent node show ?thesis by blast
qed

text \<open>
  C2, parent resolution parity, as the claim states it, fails. On the example site the
  strict resolver succeeds on the collection URL \<^verbatim>\<open>/d/\<close>, on the link \<^verbatim>\<open>/out\<close> and
  on the slash-less \<^verbatim>\<open>a.txt\<close>; the parent resolver returns another path for the first
  two (the trailing component is appended as it is) and fails on the third.
\<close>

theorem fake_path_parity_counterexample:
  "uwsgi_webdav_expand_path (realpath example_root) ''/srv/dav'' ''/d/'' = Some ''/srv/dav/d''
   \<and> uwsgi_webdav_expand_fake_path (realpath example_root) ''/srv/dav'' ''/d/'' = Some ''/srv/dav/d/''
   \<and> uwsgi_webdav_expand_path (realpath example_root) ''/srv/dav'' ''/out'' = Some ''/srv/secret''
   \<and> uwsgi_webdav_expand_fake_path (realpath example_root) ''/srv/dav'' ''/out'' = Some ''/srv/dav/out''
   \<and> uwsgi_webdav_expand_path (realpath example_root) ''/srv/dav'' ''a.txt'' = Some ''/srv/dav/a.txt''
   \<and> uwsgi_webdav_expand_fake_path (realpath example_root) ''/srv/dav'' ''a.txt'' = None"
  by code_simp

section \<open>MOVE\<close>




text \<open>
  C10, MOVE without a destination. For a MOVE request whose source resolves, an absent or
  empty \<^verbatim>\<open>Destination\<close> header gives 403 Forbidden at once: the world is unchanged, and
  the result is the same whatever \<^verbatim>\<open>rename\<close> would do, since it is not called.
\<close>

theorem move_without_destination:
  assumes "uwsgi_webdav_expand_path (os_realpath os w) (docroot req) (path_info req) = Some filename"
    and "uwsgi_get_var req ''HTTP_DESTINATION'' = None \<or> uwsgi_get_var req ''HTTP_DESTINATION'' = Some []"
  shows "uwsgi_wevdav_manage_move os w req = Inr (w, uwsgi_403 req)
       \<and> response_status (uwsgi_403 req) = Some ''403 Forbidden''
       \<and> (\<forall>r. uwsgi_wevdav_manage_move (os\<lparr>os_rename := r\<rparr>) w req = Inr (w, uwsgi_403 req))"
  using assms by (auto simp add: uwsgi_wevdav_manage_move_def status_403)

theorem move_without_destination_witness:
  "uwsgi_webdav_expand_path (os_realpath posix example_world) (docroot example_request)
       (path_info example_request) = Some ''/srv/dav/a.txt''
   \<and> uwsgi_get_var example_request ''HTTP_DESTINATION'' = None
   \<and> uwsgi_wevdav_manage_move posix example_world example_request
       = Inr (example_world, uwsgi_403 example_request)
   \<and> response_status (uwsgi_403 example_request) = Some ''403 Forbidden''"
proof -
  have src: "uwsgi_webdav_expand_path (os_realpath posix example_world) (docroot example_request)
               (path_info example_request) = Some ''/srv/dav/a.txt''"
    by code_simp
  have var: "uwsgi_get_var example_request ''HTTP_DESTINATION'' = None"
    by code_simp
  from move_without_destination [OF src disjI1 [OF var]] src var show ?thesis by blast
qed

section \<open>MKCOL\<close>

text \<open>
  What the handler does for every request and every operating system: 415 for a request
  with a body, 405 for a target that resolves, 409 when the parent does not resolve, 201
  after a successful \<^verbatim>\<open>mkdir\<close>; after a failed \<^verbatim>\<open>mkdir\<close> it prepares 409 and then
  201, and the world is unchanged.
\<close>

lemma mkcol_statuses:
  "(post_cl req > 0 \<longrightarrow>
      uwsgi_wevdav_manage_mkcol os w req
        = (w, snd (uwsgi_response_prepare_headers req ''415 Unsupported Media Type'')))
   \<and> (post_cl req = 0
        \<and> uwsgi_webdav_expand_path (os_realpath os w) (docroot req) (path_info req) = Some f \<longrightarrow>
      uwsgi_wevdav_manage_mkcol os w req
        = (w, snd (uwsgi_response_prepare_headers req ''405 Method Not Allowed'')))
   \<and> (post_cl req = 0
        \<and> uwsgi_webdav_expand_path (os_realpath os w) (docroot req) (path_info req) = None
        \<and> \<not> (length (path_info req) > 1 \<and> last (path_info req) = CHR ''/'')
        \<and> uwsgi_webdav_expand_fake_path (os_realpath os w) (docroot req) (path_info req) = None \<longrightarrow>
      uwsgi_wevdav_manage_mkcol os w req
        = (w, snd (uwsgi_response_prepare_headers req ''409 Conflict'')))
   \<and> (post_cl req = 0
        \<and> uwsgi_webdav_expand_path (os_realpath os w) (docroot req) (path_info req) = None
        \<and> \<not> (length (path_info req) > 1 \<and> last (path_info req) = CHR ''/'')
        \<and> uwsgi_webdav_expand_fake_path (os_realpath os w) (docroot req) (path_info req) = Some f
        \<and> os_mkdir os w f = Inr w' \<longrightarrow>
      uwsgi_wevdav_manage_mkcol os w req
        = (w', snd (uwsgi_response_prepare_headers req ''201 Created'')))
   \<and> (post_cl req = 0
        \<and> uwsgi_webdav_expand_path (os_realpath os w) (docroot req) (path_info req) = None
        \<and> \<not> (length (path_info req) > 1 \<and> last (path_info req) = CHR ''/'')
        \<and> uwsgi_webdav_expand_fake_path (os_realpath os w) (docroot req) (path_info req) = Some f
        \<and> os_mkdir os w f = Inl e \<longrightarrow>
      fst (uwsgi_wevdav_manage_mkcol os w req) = w
      \<and> status_lines (snd (uwsgi_wevdav_manage_mkcol os w req))
          = status_lines req @ [''409 Conflict'', ''201 Created'']
      \<and> response_status (snd (uwsgi_wevdav_manage_mkcol os w req)) = Some ''201 Created'')"
  by (simp add: uwsgi_wevdav_manage_mkcol_def uwsgi_response_prepare_headers_def
        response_status_def)

text \<open>
  C5, MKCOL status contract: the code at the failing input. \<^verbatim>\<open>MKCOL /ro/new\<close> with no
  body on the example site: the target does not exist, its parent \<^verbatim>\<open>/ro\<close> resolves,
  \<^verbatim>\<open>mkdir\<close> fails because the server may not write to \<^verbatim>\<open>/ro\<close>. The handler prepares
  409 Conflict and then 201 Created, so the response says 201 Created although no
  directory was made.
\<close>

theorem mkcol_failed_mkdir_answers_201:
  "post_cl (example_request\<lparr>path_info := ''/ro/new''\<rparr>) = 0
   \<and> uwsgi_webdav_expand_path (os_realpath posix example_world) ''/srv/dav'' ''/ro/new'' = None
   \<and> uwsgi_webdav_expand_fake_path (os_realpath posix example_world) ''/srv/dav'' ''/ro/new''
       = Some ''/srv/dav/ro/new''
   \<and> os_mkdir posix example_world ''/srv/dav/ro/new'' = Inl EACCES
   \<and> uwsgi_wevdav_manage_mkcol posix example_world (example_request\<lparr>path_info := ''/ro/new''\<rparr>)
       = (example_world,
          example_request\<lparr>path_info := ''/ro/new'',
                           status_lines := [''409 Conflict'', ''201 Created'']\<rparr>)
   \<and> response_status
         (snd (uwsgi_wevdav_manage_mkcol posix example_world (example_request\<lparr>path_info := ''/ro/new''\<rparr>)))
       = Some ''201 Created''"
  by code_simp

section \<open>PUT\<close>

text \<open>
  C6, PUT status contract, as the claim states it, fails: \<^verbatim>\<open>PUT /d/new\<close> with the body
  \<^verbatim>\<open>hello\<close> on the example site, where three bytes are left. The file is opened (and
  created), the write of the body fails, and the status is 201 Created, not 403.
\<close>

theorem put_failed_write_counterexample:
  "put_filename posix example_world
       (example_request\<lparr>path_info := ''/d/new'', post_cl := 5, body_stream := [Chunk ''hello'']\<rparr>)
     = Some ''/srv/dav/d/new''
   \<and> \<not> isl (os_open posix example_world ''/srv/dav/d/new'')
   \<and> fst (os_write posix (snd (projr (os_open posix example_world ''/srv/dav/d/new'')))
             (fst (projr (os_open posix example_world ''/srv/dav/d/new''))) ''hello'') = - 1
   \<and> response_status (snd (uwsgi_wevdav_manage_put posix example_world
         (example_request\<lparr>path_info := ''/d/new'', post_cl := 5, body_stream := [Chunk ''hello'']\<rparr>)))
       = Some ''201 Created''
   \<and> response_status (snd (uwsgi_wevdav_manage_put posix example_world
         (example_request\<lparr>path_info := ''/d/new'', post_cl := 5, body_stream := [Chunk ''hello'']\<rparr>)))
       \<noteq> Some ''403 Forbidden''"
  by code_simp

text \<open>
  C6 as amended: if neither the target nor its parent resolves the handler answers 409
  Conflict and changes nothing; if opening the file fails it answers 403 and changes
  nothing; if the file is opened it answers 201 Created, whatever happens to the writes
  of the body (the status is prepared before the body is copied, and a failed write only
  ends the copying).
\<close>

theorem put_status_contract:
  "(uwsgi_webdav_expand_path (os_realpath os w) (docroot req) (path_info req) = None
      \<and> uwsgi_webdav_expand_fake_path (os_realpath os w) (docroot req) (path_info req) = None \<longrightarrow>
      fst (uwsgi_wevdav_manage_put os w req) = w
      \<and> response_status (snd (uwsgi_wevdav_manage_put os w req)) = Some ''409 Conflict'')
   \<and> (put_filename os w req = Some filename \<and> os_open os w filename = Inl e \<longrightarrow>
      fst (uwsgi_wevdav_manage_put os w req) = w
      \<and> response_status (snd (uwsgi_wevdav_manage_put os w req)) = Some ''403 Forbidden'')
   \<and> (put_filename os w req = Some filename \<and> os_open os w filename = Inr (fd, w1) \<longrightarrow>
      response_status (snd (uwsgi_wevdav_manage_put os w req)) = Some ''201 Created'')"
proof (intro conjI impI)
  assume "uwsgi_webdav_expand_path (os_realpath os w) (docroot req) (path_info req) = None
      \<and> uwsgi_webdav_expand_fake_path (os_realpath os w) (docroot req) (path_info req) = None"
  then have none: "put_filename os w req = None"
    by (simp add: put_filename_def)
  from none show "fst (uwsgi_wevdav_manage_put os w req) = w"
    by (simp add: uwsgi_wevdav_manage_put_def)
  from none show "response_status (snd (uwsgi_wevdav_manage_put os w req)) = Some ''409 Conflict''"
    by (simp add: uwsgi_wevdav_manage_put_def status_prepare)
next
  assume closed: "put_filename os w req = Some filename \<and> os_open os w filename = Inl e"
  then show "fst (uwsgi_wevdav_manage_put os w req) = w"
    by (simp add: uwsgi_wevdav_manage_put_def)
  from closed show "response_status (snd (uwsgi_wevdav_manage_put os w req)) = Some ''403 Forbidden''"
    by (simp add: uwsgi_wevdav_manage_put_def status_403)
next
  assume "put_filename os w req = Some filename \<and> os_open os w filename = Inr (fd, w1)"
  then show "response_status (snd (uwsgi_wevdav_manage_put os w req)) = Some ''201 Created''"
    by (simp add: uwsgi_wevdav_manage_put_def uwsgi_response_prepare_headers_def
          response_status_def split: prod.splits)
qed

text \<open>
  On the example site: \<^verbatim>\<open>/none/x\<close> has no parent, \<^verbatim>\<open>/ro/new\<close> cannot be created, and
  \<^verbatim>\<open>/d/new\<close> is created although its body does not fit.
\<close>

theorem put_status_contract_witness:
  "response_status (snd (uwsgi_wevdav_manage_put posix example_world
       (example_request\<lparr>path_info := ''/none/x''\<rparr>))) = Some ''409 Conflict''
   \<and> response_status (snd (uwsgi_wevdav_manage_put posix example_world
       (example_request\<lparr>path_info := ''/ro/new''\<rparr>))) = Some ''403 Forbidden''
   \<and> response_status (snd (uwsgi_wevdav_manage_put posix example_world
       (example_request\<lparr>path_info := ''/d/new'', post_cl := 5, body_stream := [Chunk ''hello'']\<rparr>)))
       = Some ''201 Created''"
proof -
  let ?r1 = "example_request\<lparr>path_info := ''/none/x''\<rparr>"
  let ?r2 = "example_request\<lparr>path_info := ''/ro/new''\<rparr>"
  let ?r3 = "example_request\<lparr>path_info := ''/d/new'', post_cl := 5, body_stream := [Chunk ''hello'']\<rparr>"
  have h1: "uwsgi_webdav_expand_path (os_realpath posix example_world) (docroot ?r1) (path_info ?r1) = None"
           "uwsgi_webdav_expand_fake_path (os_realpath posix example_world) (docroot ?r1) (path_info ?r1) = None"
    by code_simp+
  have h2: "put_filename posix example_world ?r2 = Some ''/srv/dav/ro/new''"
           "os_open posix example_world ''/srv/dav/ro/new'' = Inl EACCES"
    by code_simp+
  have h3: "put_filename posix example_world ?r3 = Some ''/srv/dav/d/new''"
    by code_simp
  have "\<not> isl (os_open posix example_world ''/srv/dav/d/new'')" by code_simp
  then obtain fd w1 where h4: "os_open posix example_world ''/srv/dav/d/new'' = Inr (fd, w1)"
    by (cases "os_open posix example_world ''/srv/dav/d/new''") auto
  from put_status_contract [of posix example_world ?r1] h1
  have c1: "response_status (snd (uwsgi_wevdav_manage_put posix example_world ?r1)) = Some ''409 Conflict''"
    by blast
  from put_status_contract [of posix example_world ?r2 "''/srv/dav/ro/new''" EACCES] h2
  have c2: "response_status (snd (uwsgi_wevdav_manage_put posix example_world ?r2)) = Some ''403 Forbidden''"
    by blast
  from put_status_contract [of posix example_world ?r3 "''/srv/dav/d/new''" _ fd w1] h3 h4
  have c3: "response_status (snd (uwsgi_wevdav_manage_put posix example_world ?r3)) = Some ''201 Created''"
    by blast
  from c1 c2 c3 show ?thesis by blast
qed

section \<open>DELETE\<close>

text \<open>
  The status of the handler follows the result of the traversal: 403 for a result other
  than 0, 200 for 0.
\<close>

lemma delete_status_of_traversal:
  assumes "uwsgi_webdav_expand_path (os_realpath os w) (docroot req) (path_info req) = Some filename"
    and "uwsgi_is_dir os w filename" and "os_rmdir os w filename = Inl ENOTEMPTY"
    and "uwsgi_webdav_massive_delete n os w filename = Some (Inr (rc, w'))"
  shows "uwsgi_wevdav_manage_delete n os w req
           = Some (Inr (w', if rc \<noteq> 0 then uwsgi_403 req
                            else snd (uwsgi_response_prepare_headers req ''200 OK'')))"
  using assms by (simp add: uwsgi_wevdav_manage_delete_def)

text \<open>An entry that is not a directory is unlinked, never opened: a link is not followed.
  A failed \<^verbatim>\<open>unlink\<close> ends the traversal with -1.\<close>

lemma massive_delete_unlinks:
  assumes "name \<noteq> ''.''" and "name \<noteq> ''..''" and "t \<noteq> DT_DIR"
  shows "massive_delete_loop n os w dir (Entry name t # evs)
           = (case os_unlink os w (dir @ ''/'' @ name) of
                Inl e \<Rightarrow> Some (Inr (- 1, w))
              | Inr w' \<Rightarrow> massive_delete_loop n os w' dir evs)"
  using assms by simp

text \<open>
  C8, recursive DELETE: the code at the failing input. \<^verbatim>\<open>DELETE /d\<close> on the example
  site, where \<^verbatim>\<open>/d\<close> holds a file and a directory \<^verbatim>\<open>s\<close> that the server may not read.
  \<^verbatim>\<open>rmdir\<close> says the directory is not empty, the traversal unlinks the file and descends
  into \<^verbatim>\<open>s\<close>, \<^verbatim>\<open>opendir\<close> fails there, and the null stream is read: no 403 is prepared.
\<close>

theorem delete_unreadable_subdirectory:
  "uwsgi_webdav_expand_path (os_realpath posix example_world) ''/srv/dav'' ''/d'' = Some ''/srv/dav/d''
   \<and> os_rmdir posix example_world ''/srv/dav/d'' = Inl ENOTEMPTY
   \<and> os_opendir posix example_world ''/srv/dav/d/s'' = None
   \<and> uwsgi_webdav_massive_delete 2 posix example_world ''/srv/dav/d'' = Some (Inl Null_dir_stream)
   \<and> uwsgi_wevdav_manage_delete 2 posix example_world (example_request\<lparr>path_info := ''/d''\<rparr>)
       = Some (Inl Null_dir_stream)"
  by code_simp

text \<open>The fuel only bounds the depth of the recursion: a result does not change with more.\<close>

lemma massive_delete_fuel:
  "uwsgi_webdav_massive_delete n os w dir = Some r \<Longrightarrow>
     uwsgi_webdav_massive_delete (Suc n) os w dir = Some r"
  "massive_delete_loop n os w dir evs = Some r' \<Longrightarrow>
     massive_delete_loop (Suc n) os w dir evs = Some r'"
proof (induction n os w dir and n os w dir evs arbitrary: r and r'
       rule: uwsgi_webdav_massive_delete_massive_delete_loop.induct)
  case (1 os w dir)
  then show ?case by simp
next
  case (2 n os w dir)
  then show ?case by (auto split: option.splits)
next
  case (3 n os w dir)
  then show ?case by simp
next
  case (4 n os w dir evs)
  then show ?case by simp
next
  case (5 n os w dir name t evs)
  then show ?case
    by (auto split: option.splits sum.splits prod.splits if_splits)
qed

text \<open>
  \<^verbatim>\<open>DELETE /t\<close> on the example site, where \<^verbatim>\<open>/t\<close> holds a file, a subdirectory with
  a file, and a link to a file outside the docroot: the answer is 200, the collection is
  gone, and the target of the link is still there.
\<close>

lemma delete_collection_example:
  "map_option (map_sum id (\<lambda>(w', req'). (response_status req',
        walk (fs_root w') [''srv'', ''dav'', ''t''],
        walk (fs_root w') [''srv'', ''secret''])))
     (uwsgi_wevdav_manage_delete 2 posix example_world (example_request\<lparr>path_info := ''/t''\<rparr>))
   = Some (Inr (Some ''200 OK'', None, Some (File ''key'')))"
  by code_simp

section \<open>PROPFIND\<close>










section \<open>Dead properties\<close>

lemma example_a_txt: "realpath example_root ''/srv/dav/a.txt'' = Some ''/srv/dav/a.txt''"
  by code_simp

lemma example_a_txt_writable: "can_write example_world ''/srv/dav/a.txt''"
  by code_simp

text \<open>
  C3, dead-property round-trip: the code at the failing input. The property \<^verbatim>\<open>foo\<close> of
  namespace \<^verbatim>\<open>X\<close> is set to the empty value on \<^verbatim>\<open>/srv/dav/a.txt\<close> (a PROPPATCH with
  \<^verbatim>\<open><foo xmlns="X"/>\<close>). The attribute is stored, with the key that decodes to the pair;
  reading the dead properties with their values does not yield it, reading the names
  does. The loop tests \<^verbatim>\<open>rlen\<close>, the length of the name list, where the length
  \<^verbatim>\<open>rlen2\<close> of the value was meant, so its branch for an empty value is never taken.
\<close>

theorem empty_dead_property_is_not_read_back:
  "uwsgi_webdav_prop_set posix example_world ''/srv/dav/a.txt'' ''foo'' (Some ''X'') ''''
     = (0, example_world\<lparr>xattrs := [(''/srv/dav/a.txt'', [(''user.uwsgi.webdav.X|foo'', '''')])]\<rparr>)
   \<and> os_getxattr posix
        (example_world\<lparr>xattrs := [(''/srv/dav/a.txt'', [(''user.uwsgi.webdav.X|foo'', '''')])]\<rparr>)
        ''/srv/dav/a.txt'' ''user.uwsgi.webdav.X|foo'' = Some ''''
   \<and> add_props_xattrs posix
        (example_world\<lparr>xattrs := [(''/srv/dav/a.txt'', [(''user.uwsgi.webdav.X|foo'', '''')])]\<rparr>)
        ''/srv/dav/a.txt'' True = []
   \<and> add_props_xattrs posix
        (example_world\<lparr>xattrs := [(''/srv/dav/a.txt'', [(''user.uwsgi.webdav.X|foo'', '''')])]\<rparr>)
        ''/srv/dav/a.txt'' False = [(Some ''X'', ''foo'', None)]"
proof -
  let ?w = "example_world\<lparr>xattrs := [(''/srv/dav/a.txt'', [(''user.uwsgi.webdav.X|foo'', '''')])]\<rparr>"
  have stored: "uwsgi_webdav_prop_set posix example_world ''/srv/dav/a.txt'' ''foo'' (Some ''X'') ''''
                  = (0, ?w)"
    using example_a_txt example_a_txt_writable [unfolded example_world_def]
    by (simp add: uwsgi_webdav_prop_set_def xattr_name_def posix_def posix_setxattr_def
          file_xattrs_def set_file_xattrs_def c_str_def NUL_def XATTR_NAME_MAX_def
          XATTR_SIZE_MAX_def example_world_def)
  have got: "os_getxattr posix ?w ''/srv/dav/a.txt'' ''user.uwsgi.webdav.X|foo'' = Some ''''"
    by code_simp
  have valued: "add_props_xattrs posix ?w ''/srv/dav/a.txt'' True = []"
    by code_simp
  have named: "add_props_xattrs posix ?w ''/srv/dav/a.txt'' False = [(Some ''X'', ''foo'', None)]"
    by code_simp
  from stored got valued named show ?thesis by blast
qed

lemma strchr_first: "c \<notin> set a \<Longrightarrow> strchr (a @ c # b) c = Some (length a)"
  by (induction a) auto

lemma strchr_none: "c \<notin> set a \<Longrightarrow> strchr a c = None"
  by (induction a) auto

lemma xattr_scan_key:
  "NUL \<notin> set n \<Longrightarrow> xattr_scan h (Some k) (n @ NUL # rest) = h (k @ n) @ xattr_scan h None rest"
  by (induction n arbitrary: k) auto

lemma xattr_scan_names:
  "\<forall>n \<in> set names. n \<noteq> [] \<and> NUL \<notin> set n \<Longrightarrow>
   xattr_scan h None (concat (map (\<lambda>n. n @ [NUL]) names)) = concat (map h names)"
proof (induction names)
  case Nil
  then show ?case by simp
next
  case (Cons n names)
  then obtain c n' where n: "n = c # n'" and c: "c \<noteq> NUL" and n': "NUL \<notin> set n'"
    by (cases n) auto
  from Cons have ih: "xattr_scan h None (concat (map (\<lambda>n. n @ [NUL]) names)) = concat (map h names)"
    by simp
  have "xattr_scan h None (concat (map (\<lambda>n. n @ [NUL]) (n # names)))
          = xattr_scan h (Some [c]) (n' @ NUL # concat (map (\<lambda>n. n @ [NUL]) names))"
    using c by (simp add: n)
  also have "\<dots> = h ([c] @ n') @ xattr_scan h None (concat (map (\<lambda>n. n @ [NUL]) names))"
    using n' by (rule xattr_scan_key)
  finally show ?case by (simp add: ih n)
qed

text \<open>
  The key of a dead property decodes to its namespace and name, for every operating
  system, when the namespace has no separator in it (or, with no namespace, the name has
  none); the value is read back when it is not empty.
\<close>

lemma xattr_key_decodes:
  assumes "NUL \<notin> set attr"
    and "case ns of None \<Rightarrow> CHR ''|'' \<notin> set attr | Some n \<Rightarrow> CHR ''|'' \<notin> set n \<and> NUL \<notin> set n"
  shows "xattr_item os w filename False rlen (xattr_name attr ns) = [(ns, attr, None)]"
    and "0 < rlen \<Longrightarrow> os_getxattr os w filename (xattr_name attr ns) = Some v \<Longrightarrow> v \<noteq> [] \<Longrightarrow>
         xattr_item os w filename True rlen (xattr_name attr ns) = [(ns, attr, Some (c_str v))]"
proof -
  have pre: "uwsgi_starts_with (''user.uwsgi.webdav.'' @ s) ''user.uwsgi.webdav.'' = 0" for s
    by (simp add: uwsgi_starts_with_def)
  have key: "xattr_name attr ns = ''user.uwsgi.webdav.'' @ (case ns of None \<Rightarrow> attr | Some n \<Rightarrow> n @ CHR ''|'' # attr)"
    using assms by (auto simp add: xattr_name_def c_str_id split: option.splits)
  have rest: "drop 18 (xattr_name attr ns) = (case ns of None \<Rightarrow> attr | Some n \<Rightarrow> n @ CHR ''|'' # attr)"
    by (simp add: key)
  have sep: "strchr (case ns of None \<Rightarrow> attr | Some n \<Rightarrow> n @ CHR ''|'' # attr) (CHR ''|'')
               = map_option length ns"
    using assms(2) by (auto simp add: strchr_first strchr_none split: option.splits)
  have st: "uwsgi_starts_with (xattr_name attr ns) ''user.uwsgi.webdav.'' = 0"
    unfolding key by (rule pre)
  show "xattr_item os w filename False rlen (xattr_name attr ns) = [(ns, attr, None)]"
    unfolding xattr_item_def rest sep st
    by (cases ns) simp_all
  show "xattr_item os w filename True rlen (xattr_name attr ns) = [(ns, attr, Some (c_str v))]"
    if "0 < rlen" "os_getxattr os w filename (xattr_name attr ns) = Some v" "v \<noteq> []"
    unfolding xattr_item_def rest sep st using that
    by (cases ns) simp_all
qed

lemma map_of_replace:
  "map_of xs k = Some v \<Longrightarrow> map_of (map (\<lambda>(n, v). if n = k then (n, b) else (n, v)) xs) k = Some b"
  by (induction xs) (auto split: if_splits)

lemma map_of_filter_key: "map_of (filter (\<lambda>(k, v). k \<noteq> f) l) f = None"
  by (induction l) auto

lemma file_xattrs_set:
  "realpath (fs_root w) (c_str p) = Some f \<Longrightarrow> file_xattrs (set_file_xattrs w f xs) p = Some xs"
  by (simp add: file_xattrs_def set_file_xattrs_def map_add_def map_of_filter_key)

text \<open>
  On the file tree's attribute store: after a successful \<^verbatim>\<open>uwsgi_webdav_prop_set\<close> with
  a value that is not empty, the dead properties read with their values hold the pair with
  that value; after a successful \<^verbatim>\<open>uwsgi_webdav_prop_del\<close> the attribute is absent.
\<close>

lemma dead_property_round_trip:
  assumes set: "uwsgi_webdav_prop_set posix w filename attr ns body = (0, w')"
    and store: "\<forall>xs. file_xattrs w filename = Some xs \<longrightarrow> (\<forall>n \<in> fst ` set xs. n \<noteq> [] \<and> NUL \<notin> set n)"
    and name: "NUL \<notin> set attr"
              "case ns of None \<Rightarrow> CHR ''|'' \<notin> set attr | Some n \<Rightarrow> CHR ''|'' \<notin> set n \<and> NUL \<notin> set n"
    and val: "body \<noteq> []" "NUL \<notin> set body"
  shows "(ns, attr, Some body) \<in> set (add_props_xattrs posix w' filename True)"
proof -
  let ?key = "xattr_name attr ns"
  have key: "?key = ''user.uwsgi.webdav.'' @ (case ns of None \<Rightarrow> attr | Some n \<Rightarrow> n @ CHR ''|'' # attr)"
    using name by (auto simp add: xattr_name_def c_str_id split: option.splits)
  have "NUL \<noteq> CHR ''|''" by (simp add: NUL_def)
  with name have knul: "NUL \<notin> set ?key"
    unfolding key by (auto simp add: NUL_def split: option.splits)
  have kne: "?key \<noteq> []" by (simp add: key)
  from set obtain xs f where old: "file_xattrs w filename = Some xs"
    and f: "realpath (fs_root w) (c_str filename) = Some f"
    and writable: "can_write w filename"
    and w': "w' = set_file_xattrs w f
                    (if map_of xs ?key = None then xs @ [(?key, body)]
                     else map (\<lambda>(n, v). if n = ?key then (n, body) else (n, v)) xs)"
    by (auto simp add: uwsgi_webdav_prop_set_def posix_def posix_setxattr_def c_str_id [OF knul]
          c_str_id [OF val(2)] file_xattrs_def split: option.splits if_splits sum.splits)
  define xs' where "xs' = (if map_of xs ?key = None then xs @ [(?key, body)]
                     else map (\<lambda>(n, v). if n = ?key then (n, body) else (n, v)) xs)"
  have root: "fs_root w' = fs_root w"
    by (simp add: w' set_file_xattrs_def)
  from writable have readable: "can_read w' filename"
    by (auto simp add: can_write_def can_read_def file_node_def root writable_node_def
          split: option.splits node.splits)
  from f have new: "file_xattrs w' filename = Some xs'"
    unfolding w' xs'_def by (rule file_xattrs_set)
  have names: "fst ` set xs' = insert ?key (fst ` set xs)"
  proof (cases "map_of xs ?key")
    case None
    then show ?thesis by (auto simp add: xs'_def)
  next
    case (Some v)
    then have "(?key, v) \<in> set xs" by (rule map_of_SomeD)
    then have "?key \<in> fst ` set xs" by force
    moreover have "fst ` set (map (\<lambda>(n, v). if n = ?key then (n, body) else (n, v)) xs) = fst ` set xs"
      by (induction xs) auto
    ultimately show ?thesis using Some by (auto simp add: xs'_def)
  qed
  have stored: "map_of xs' ?key = Some body"
  proof (cases "map_of xs ?key")
    case None
    then show ?thesis by (simp add: xs'_def map_add_Some_iff)
  next
    case (Some v)
    then show ?thesis by (simp add: xs'_def map_of_replace)
  qed
  from store old names knul kne have wf: "\<forall>n \<in> set (map fst xs'). n \<noteq> [] \<and> NUL \<notin> set n"
    by auto
  have buf: "posix_listxattr w' filename = Some (concat (map (\<lambda>n. n @ [NUL]) (map fst xs')))"
    by (simp add: posix_listxattr_def new comp_def case_prod_unfold)
  from names have ne: "xs' \<noteq> []" by auto
  then have len: "0 < int (length (concat (map (\<lambda>n. n @ [NUL]) (map fst xs'))))"
    by (cases xs') auto
  have got: "os_getxattr posix w' filename ?key = Some body"
    by (simp add: posix_def posix_getxattr_def new c_str_id [OF knul] stored readable)
  have scan: "add_props_xattrs posix w' filename True
                = concat (map (xattr_item posix w' filename True
                                 (int (length (concat (map (\<lambda>n. n @ [NUL]) (map fst xs'))))))
                           (map fst xs'))"
    using len xattr_scan_names [OF wf]
    by (simp add: add_props_xattrs_def posix_def buf)
  from xattr_key_decodes(2) [OF name len got val(1)]
  have "xattr_item posix w' filename True
          (int (length (concat (map (\<lambda>n. n @ [NUL]) (map fst xs'))))) ?key = [(ns, attr, Some body)]"
    by (simp add: c_str_id [OF val(2)])
  moreover from stored have "(?key, body) \<in> set xs'" by (rule map_of_SomeD)
  ultimately show ?thesis
    unfolding scan by force
qed

lemma dead_property_deleted:
  assumes "uwsgi_webdav_prop_del posix w filename attr ns = (0, w')"
  shows "os_getxattr posix w' filename (xattr_name attr ns) = None"
proof -
  let ?key = "xattr_name attr ns"
  from assms obtain xs f where old: "file_xattrs w filename = Some xs"
    and f: "realpath (fs_root w) (c_str filename) = Some f"
    and w': "w' = set_file_xattrs w f (filter (\<lambda>(n, v). n \<noteq> c_str ?key) xs)"
    by (auto simp add: uwsgi_webdav_prop_del_def posix_def posix_removexattr_def
          file_xattrs_def split: option.splits if_splits sum.splits)
  from f have new: "file_xattrs w' filename = Some (filter (\<lambda>(n, v). n \<noteq> c_str ?key) xs)"
    unfolding w' by (rule file_xattrs_set)
  have "map_of (filter (\<lambda>(n, v). n \<noteq> c_str ?key) xs) (c_str ?key) = None"
    by (induction xs) auto
  then show ?thesis
    by (simp add: posix_def posix_getxattr_def new)
qed

section \<open>LOCK\<close>

text \<open>
  C9, LOCK contract, as the claim states it, fails: on the example site the cache holds a
  lock with another token for the URI of the request, and the handler answers 201 Created,
  not 423 Locked, with no body and no header that could carry a token, and leaves the
  cache as it was.
\<close>

theorem lock_contract_counterexample:
  "map_of (lock_cache example_world) (scheme example_request @ ''://'' @ host example_request
       @ path_info example_request) = Some ''opaquelocktoken:1''
   \<and> fst (uwsgi_wevdav_manage_lock posix example_world example_request) = example_world
   \<and> response_status (snd (uwsgi_wevdav_manage_lock posix example_world example_request))
       = Some ''201 Created''
   \<and> response_status (snd (uwsgi_wevdav_manage_lock posix example_world example_request))
       \<noteq> Some ''423 Locked''
   \<and> resp_body (snd (uwsgi_wevdav_manage_lock posix example_world example_request)) = []
   \<and> resp_headers (snd (uwsgi_wevdav_manage_lock posix example_world example_request)) = []"
  by code_simp

text \<open>
  C9 as amended: every LOCK request is answered 201 Created; the handler writes no body
  and adds no header, so no token is returned, and the world, the lock cache with it, is
  neither consulted nor changed.
\<close>

theorem lock_is_a_stub:
  "fst (uwsgi_wevdav_manage_lock os w req) = w
   \<and> response_status (snd (uwsgi_wevdav_manage_lock os w req)) = Some ''201 Created''
   \<and> resp_body (snd (uwsgi_wevdav_manage_lock os w req)) = resp_body req
   \<and> resp_headers (snd (uwsgi_wevdav_manage_lock os w req)) = []
   \<and> snd (uwsgi_wevdav_manage_lock os w req) = snd (uwsgi_wevdav_manage_lock os' w' req)"
  by (simp add: uwsgi_wevdav_manage_lock_def response_status_def uwsgi_response_prepare_headers_def)

end
